theory Spec2Isabelle
  imports Complex_Main "HOL-Library.Monad_Syntax"
begin

section \<open>JavaScript values\<close>

text \<open>
  Numbers of the program are IEEE doubles. A finite double is modelled as an exact real:
  the model does not round, so a value that the program's doubles put on the other side
  of a rounding tie can differ in its last digit, and integers beyond \<open>2^53\<close> stay
  exact. NaN is modelled wherever the program can meet it: a \<open>number\<close> is a real or
  NaN (\<open>None\<close>). NaN comes from \<open>parseFloat\<close> and \<open>parseInt\<close> of fetched text (the
  four economic indicators, the price of a sale) and from the mean of an empty array
  (0 / 0); arithmetic, \<open>Math.max\<close>, \<open>Math.min\<close> and \<open>Math.round\<close> on NaN give NaN,
  and every comparison with NaN is false. Numbers that the program computes from counts
  and from positive prices only (crime rates, average prices, price growth) are reals.
  Instants (\<open>Date.now()\<close>) are milliseconds since the epoch, a natural number.
  Strings are ASCII: \<open>toUpperCase\<close> and the whitespace class \<open>\s\<close> are modelled on
  the ASCII range; outside it (U+00A0, letters with accents) the program's cleaning of
  a postcode differs from \<open>removeWhitespace\<close> and \<open>toUpperCase\<close> here.
\<close>

type_synonym number = "real option"

definition above :: "number \<Rightarrow> real \<Rightarrow> bool" where
  \<comment> \<open>\<open>x > c\<close>, false of NaN\<close>
  "above x c = (case x of None \<Rightarrow> False | Some v \<Rightarrow> v > c)"

definition below :: "number \<Rightarrow> real \<Rightarrow> bool" where
  \<comment> \<open>\<open>x < c\<close>, false of NaN\<close>
  "below x c = (case x of None \<Rightarrow> False | Some v \<Rightarrow> v < c)"

definition jsRound :: "real \<Rightarrow> int" where
  \<comment> \<open>\<open>Math.round\<close> of a number that is not NaN: the nearest integer, a tie going up\<close>
  "jsRound x = \<lfloor>x + 1 / 2\<rfloor>"

definition round2 :: "real \<Rightarrow> real" where
  \<comment> \<open>\<open>Math.round(x * 100) / 100\<close>\<close>
  "round2 x = real_of_int (jsRound (x * 100)) / 100"

definition isWhitespace :: "char \<Rightarrow> bool" where
  \<comment> \<open>\<open>\s\<close> on ASCII: tab, line feed, vertical tab, form feed, carriage return, space.\<close>
  "isWhitespace c = (let n = (of_char c :: nat) in (9 \<le> n \<and> n \<le> 13) \<or> n = 32)"

definition isUpper :: "char \<Rightarrow> bool" where
  \<comment> \<open>the class \<open>[A-Z]\<close>\<close>
  "isUpper c = (let n = (of_char c :: nat) in 65 \<le> n \<and> n \<le> 90)"

definition isLower :: "char \<Rightarrow> bool" where
  "isLower c = (let n = (of_char c :: nat) in 97 \<le> n \<and> n \<le> 122)"

definition toUpperChar :: "char \<Rightarrow> char" where
  \<comment> \<open>a lower-case letter loses bit 5 (0x61..0x7A becomes 0x41..0x5A)\<close>
  "toUpperChar c =
     (if isLower c
      then (case c of Char b0 b1 b2 b3 b4 b5 b6 b7 \<Rightarrow> Char b0 b1 b2 b3 b4 False b6 b7)
      else c)"

definition toUpperCase :: "string \<Rightarrow> string" where
  "toUpperCase s = map toUpperChar s"

definition removeWhitespace :: "string \<Rightarrow> string" where
  \<comment> \<open>\<open>s.replace(/\s+/g, "")\<close>\<close>
  "removeWhitespace s = filter (\<lambda>c. \<not> isWhitespace c) s"

definition removeQuotes :: "string \<Rightarrow> string" where
  \<comment> \<open>\<open>s.replace(/"/g, "")\<close>\<close>
  "removeQuotes s = filter (\<lambda>c. c \<noteq> CHR 0x22) s"

definition trim :: "string \<Rightarrow> string" where
  "trim s = rev (dropWhile isWhitespace (rev (dropWhile isWhitespace s)))"

fun splitOn :: "char \<Rightarrow> string \<Rightarrow> string list" where
  \<comment> \<open>\<open>s.split(sep)\<close> for a one-character separator: never the empty list\<close>
  "splitOn sep [] = [[]]"
| "splitOn sep (c # cs) =
     (if c = sep then [] # splitOn sep cs
      else (case splitOn sep cs of
              [] \<Rightarrow> [[c]]
            | w # ws \<Rightarrow> (c # w) # ws))"

fun startsWith :: "string \<Rightarrow> string \<Rightarrow> bool" where
  "startsWith s [] = True"
| "startsWith [] (p # ps) = False"
| "startsWith (c # cs) (p # ps) = (c = p \<and> startsWith cs ps)"

fun includesStr :: "string \<Rightarrow> string \<Rightarrow> bool" where
  \<comment> \<open>\<open>s.includes(t)\<close>: \<open>t\<close> occurs in \<open>s\<close>\<close>
  "includesStr [] t = (t = [])"
| "includesStr (c # cs) t = (startsWith (c # cs) t \<or> includesStr cs t)"

definition digitValue :: "char \<Rightarrow> nat option" where
  \<comment> \<open>the value of a digit character, letters counting from 10 in either case\<close>
  "digitValue c =
     (let n = (of_char c :: nat) in
      if 48 \<le> n \<and> n \<le> 57 then Some (n - 48)
      else if 97 \<le> n \<and> n \<le> 122 then Some (n - 87)
      else if 65 \<le> n \<and> n \<le> 90 then Some (n - 55)
      else None)"

definition isDigitIn :: "nat \<Rightarrow> char \<Rightarrow> bool" where
  "isDigitIn radix c = (case digitValue c of None \<Rightarrow> False | Some v \<Rightarrow> v < radix)"

definition digitsValue :: "nat \<Rightarrow> string \<Rightarrow> nat" where
  "digitsValue radix ds =
     foldl (\<lambda>acc c. acc * radix + (case digitValue c of None \<Rightarrow> 0 | Some v \<Rightarrow> v)) 0 ds"

definition parseInt :: "string \<Rightarrow> int option" where
  \<comment> \<open>\<open>parseInt(s)\<close> with no radix argument: leading whitespace, a sign, a \<open>0x\<close> prefix
      for base 16, then the longest run of digits; \<open>None\<close> is NaN (no digit at all).
      The integer is exact here; the program rounds one beyond \<open>2^53\<close> to a double.\<close>
  "parseInt s =
     (let t = dropWhile isWhitespace s;
          negative = startsWith t ''-'';
          u = (if startsWith t ''-'' \<or> startsWith t ''+'' then drop 1 t else t);
          hex = (startsWith u ''0x'' \<or> startsWith u ''0X'');
          radix = (if hex then 16 else 10);
          v = (if hex then drop 2 u else u);
          ds = takeWhile (isDigitIn radix) v
      in if ds = [] then None
         else Some (if negative then - int (digitsValue radix ds) else int (digitsValue radix ds)))"

section \<open>The data model\<close>

record sale =
  price :: "int option"  \<comment> \<open>the result of \<open>parseInt\<close>, \<open>None\<close> for NaN\<close>
  date :: string
  propertyType :: string
  newBuild :: string
  tenure :: string
  address :: string
  salePostcode :: string

record crimeSnapshot =
  totalCrimes :: nat
  crimeRate :: real
  categories :: "(string \<times> nat) list"
  crimeLastUpdated :: nat
  source :: "string option"  \<comment> \<open>a live snapshot has no \<open>source\<close> property\<close>

record dataSources =
  bankRateSource :: string
  inflationSource :: string
  unemploymentSource :: string
  gdpGrowthSource :: string

record economicSnapshot =
  baseRate :: number  \<comment> \<open>each indicator is what \<open>parseFloat\<close> made of fetched text\<close>
  inflation :: number
  unemploymentRate :: number
  gdpGrowth :: number
  economicLastUpdated :: nat
  dataSources :: dataSources

datatype cacheValue =
  Undefined
| Rate real
| Sales "sale list"
| Crime crimeSnapshot

section \<open>FreeRealTimeDataProvider: the cache\<close>

record provider =
  cache :: "string \<rightharpoonup> cacheValue"
  cacheExpiry :: "string \<rightharpoonup> nat"

definition newProvider :: provider where
  \<comment> \<open>the constructor: two empty maps\<close>
  "newProvider = \<lparr>cache = Map.empty, cacheExpiry = Map.empty\<rparr>"

definition cacheDuration :: "string \<rightharpoonup> nat" where
  "cacheDuration =
     [''bankRate'' \<mapsto> 24 * 60 * 60 * 1000,
      ''onsData'' \<mapsto> 12 * 60 * 60 * 1000,
      ''crimeData'' \<mapsto> 7 * 24 * 60 * 60 * 1000,
      ''landRegistry'' \<mapsto> 24 * 60 * 60 * 1000]"

definition isCached :: "provider \<Rightarrow> nat \<Rightarrow> string \<Rightarrow> bool \<times> provider" where
  \<comment> \<open>\<open>now\<close> is what \<open>Date.now()\<close> reads; \<open>!expiry\<close> holds of a missing entry and of 0\<close>
  "isCached p now key =
     (case cacheExpiry p key of
        None \<Rightarrow> (False, p)
      | Some expiry \<Rightarrow>
          if expiry = 0 then (False, p)
          else if now > expiry
          then (False, p\<lparr>cache := (cache p)(key := None),
                          cacheExpiry := (cacheExpiry p)(key := None)\<rparr>)
          else (cache p key \<noteq> None, p))"

definition getFromCache :: "provider \<Rightarrow> string \<Rightarrow> cacheValue" where
  "getFromCache p key = (case cache p key of None \<Rightarrow> Undefined | Some v \<Rightarrow> v)"

definition setCache :: "provider \<Rightarrow> nat \<Rightarrow> string \<Rightarrow> cacheValue \<Rightarrow> provider" where
  \<comment> \<open>\<open>this.cacheDuration[key] || 60 * 60 * 1000\<close>: a missing or zero duration is one
      hour. The keys of the program are fixed names and names that start with
      \<open>crime_\<close> or \<open>landRegistry_\<close>; a key that names a member of \<open>Object.prototype\<close>
      (\<open>constructor\<close>, \<open>toString\<close>) would find that member in the program and is not
      modelled.\<close>
  "setCache p now key v =
     (let duration = (case cacheDuration key of
                        None \<Rightarrow> 60 * 60 * 1000
                      | Some d \<Rightarrow> if d = 0 then 60 * 60 * 1000 else d)
      in p\<lparr>cache := (cache p)(key \<mapsto> v),
            cacheExpiry := (cacheExpiry p)(key \<mapsto> now + duration)\<rparr>)"

definition cacheGet :: "provider \<Rightarrow> nat \<Rightarrow> string \<Rightarrow> cacheValue option \<times> provider" where
  \<comment> \<open>the lookup every fetcher starts with:
      \<open>if (this.isCached(key)) return this.getFromCache(key)\<close>; \<open>None\<close> is a miss\<close>
  "cacheGet p now key =
     (case isCached p now key of
        (True, p') \<Rightarrow> (Some (getFromCache p' key), p')
      | (False, p') \<Rightarrow> (None, p'))"

section \<open>FreeRealTimeDataProvider: the sales and crime fetchers\<close>

definition mkSale :: "string list \<Rightarrow> sale" where
  \<comment> \<open>the object literal of \<open>parseLandRegistryCSV\<close>, for a line of at least 12 parts\<close>
  "mkSale parts =
     \<lparr>price = parseInt (removeQuotes (parts ! 1)),
      date = removeQuotes (parts ! 2),
      propertyType = removeQuotes (parts ! 4),
      newBuild = removeQuotes (parts ! 5),
      tenure = removeQuotes (parts ! 6),
      address = removeQuotes (parts ! 7 @ '' '' @ parts ! 8 @ '' '' @ parts ! 9),
      salePostcode = removeQuotes (parts ! 3)\<rparr>"

fun collectSales :: "string list \<Rightarrow> sale list \<Rightarrow> sale list" where
  \<comment> \<open>the loop of \<open>parseLandRegistryCSV\<close> over the lines after the header, \<open>sales\<close> being
      the array built so far. No call in the \<open>try\<close> block throws on strings, so its
      \<open>catch\<close> has no branch here.\<close>
  "collectSales [] sales = sales"
| "collectSales (l # ls) sales =
     (if length sales < 50
      then (let line = trim l in
            if line = [] then collectSales ls sales
            else (let parts = splitOn (CHR '','') line in
                  if length parts \<ge> 12 then collectSales ls (sales @ [mkSale parts])
                  else collectSales ls sales))
      else sales)"

definition dateCompare :: "(string \<Rightarrow> int option) \<Rightarrow> sale \<Rightarrow> sale \<Rightarrow> int" where
  \<comment> \<open>\<open>new Date(b.date) - new Date(a.date)\<close>; \<open>dateValue\<close> is the engine's date parser,
      \<open>None\<close> for an Invalid Date, whose NaN difference a sort reads as 0\<close>
  "dateCompare dateValue a b =
     (case (dateValue (date b), dateValue (date a)) of
        (Some tb, Some ta) \<Rightarrow> tb - ta
      | _ \<Rightarrow> 0)"

fun insertSale :: "(sale \<Rightarrow> sale \<Rightarrow> int) \<Rightarrow> sale \<Rightarrow> sale list \<Rightarrow> sale list" where
  "insertSale cmp x [] = [x]"
| "insertSale cmp x (y # ys) = (if cmp x y \<le> 0 then x # y # ys else y # insertSale cmp x ys)"

definition sortSales :: "(sale \<Rightarrow> sale \<Rightarrow> int) \<Rightarrow> sale list \<Rightarrow> sale list" where
  \<comment> \<open>\<open>Array.prototype.sort\<close>, a stable sort under the comparator. It stands for the
      engine's sort where the comparator is consistent: on at most one record, or when
      every date parses. With an Invalid Date among valid ones the engine's order
      depends on its algorithm and is not modelled.\<close>
  "sortSales cmp xs = foldr (insertSale cmp) xs []"

definition parseLandRegistryCSV :: "(string \<Rightarrow> int option) \<Rightarrow> string \<Rightarrow> sale list" where
  "parseLandRegistryCSV dateValue csvData =
     sortSales (dateCompare dateValue) (collectSales (drop 1 (splitOn (CHR 0x0A) csvData)) [])"

fun bump :: "string \<Rightarrow> (string \<times> nat) list \<Rightarrow> (string \<times> nat) list" where
  \<comment> \<open>\<open>obj[k] = (obj[k] || 0) + 1\<close> on an object kept as its list of properties\<close>
  "bump k [] = [(k, 1)]"
| "bump k ((k', n) # rest) = (if k' = k then (k', n + 1) # rest else (k', n) # bump k rest)"

definition categorizeCrimes :: "string list \<Rightarrow> (string \<times> nat) list" where
  \<comment> \<open>a crime is carried as its \<open>category\<close>\<close>
  "categorizeCrimes crimes = foldl (\<lambda>categories category. bump category categories) [] crimes"

definition fallbackCrimeData :: "nat \<Rightarrow> crimeSnapshot" where
  \<comment> \<open>the object the \<open>catch\<close> branch of \<open>getPoliceData\<close> returns\<close>
  "fallbackCrimeData now =
     \<lparr>totalCrimes = 25, crimeRate = 300, categories = [], crimeLastUpdated = now,
      source = Some ''fallback''\<rparr>"

definition getPoliceData ::
  "provider \<Rightarrow> nat \<Rightarrow> nat \<Rightarrow> string \<Rightarrow> string \<Rightarrow> string list option \<Rightarrow> cacheValue \<times> provider" where
  \<comment> \<open>\<open>lat\<close> and \<open>lng\<close> are used in template literals only, so they are carried as the text
      they render to. \<open>now\<close> is the instant of the cache lookup, \<open>later\<close> the instant after
      the response has been read. \<open>response\<close> is the outcome of the request: \<open>None\<close> when
      anything in the \<open>try\<close> block throws (no connection, a status that is not ok, a body
      that is not a JSON array), else the crimes.\<close>
  "getPoliceData p now later lat lng response =
     (let cacheKey = ''crime_'' @ lat @ ''_'' @ lng in
      case cacheGet p now cacheKey of
        (Some v, p') \<Rightarrow> (v, p')
      | (None, p') \<Rightarrow>
          (case response of
             Some crimes \<Rightarrow>
               (let snapshot = \<lparr>totalCrimes = length crimes,
                                crimeRate = real (length crimes * 12),
                                categories = categorizeCrimes crimes,
                                crimeLastUpdated = later,
                                source = None\<rparr>
                in (Crime snapshot, setCache p' later cacheKey (Crime snapshot)))
           | None \<Rightarrow> (Crime (fallbackCrimeData later), p')))"

definition getLandRegistryData ::
  "(string \<Rightarrow> int option) \<Rightarrow> provider \<Rightarrow> nat \<Rightarrow> nat \<Rightarrow> string \<Rightarrow> string option
     \<Rightarrow> cacheValue \<times> provider" where
  \<comment> \<open>\<open>response\<close> is the CSV text of the request, \<open>None\<close> when the request throws or its
      status is not ok\<close>
  "getLandRegistryData dateValue p now later postcode response =
     (let cacheKey = ''landRegistry_'' @ postcode in
      case cacheGet p now cacheKey of
        (Some v, p') \<Rightarrow> (v, p')
      | (None, p') \<Rightarrow>
          (case response of
             Some csvData \<Rightarrow>
               (let sales = parseLandRegistryCSV dateValue csvData
                in (Sales sales, setCache p' later cacheKey (Sales sales)))
           | None \<Rightarrow> (Sales [], p')))"


section \<open>The data fusion layer\<close>

record economicImpact =
  interestRateEffect :: number
  inflationEffect :: real
  unemploymentEffect :: real

record crimeImpact =
  impactCrimeRate :: real
  safetyScore :: real

record enhancedMetrics =
  averagePrice :: "real option"  \<comment> \<open>\<open>None\<close>: the property is missing or \<open>null\<close>\<close>
  priceGrowth :: "real option"
  propertyTypes :: "(string \<times> nat) list option"
  economicImpact :: "economicImpact option"
  crimeImpact :: "crimeImpact option"

record dataQuality =
  economicQuality :: dataSources
  recentSalesQuality :: string
  crimeQuality :: string

record enhancedData =
  postcode :: string
  economicData :: "economicSnapshot option"
  recentSales :: "sale list"
  crimeData :: "crimeSnapshot option"
  enhancedMetrics :: enhancedMetrics
  dataQuality :: dataQuality
  lastUpdated :: nat

definition pricesOf :: "sale list \<Rightarrow> int list" where
  \<comment> \<open>\<open>recentSales.map((sale) => sale.price).filter((price) => price > 0)\<close>; NaN is
      not greater than 0\<close>
  "pricesOf sales =
     concat (map (\<lambda>s. case price s of None \<Rightarrow> [] | Some p \<Rightarrow> if p > 0 then [p] else []) sales)"

definition meanInt :: "int list \<Rightarrow> real" where
  \<comment> \<open>\<open>xs.reduce((sum, x) => sum + x, 0) / xs.length\<close>, used on non-empty lists only\<close>
  "meanInt xs = real_of_int (sum_list xs) / real (length xs)"

definition calculateEnhancedMetrics ::
  "sale list \<Rightarrow> economicSnapshot option \<Rightarrow> crimeSnapshot option \<Rightarrow> enhancedMetrics" where
  "calculateEnhancedMetrics sales economic crime =
     (let prices = pricesOf sales in
      \<lparr>averagePrice =
         (if length sales > 0 \<and> length prices > 0
          then Some (real_of_int (jsRound (meanInt prices))) else None),
       priceGrowth =
         (if length sales > 0 \<and> length prices \<ge> 3
          then (let oldPrices = drop (length prices - 3) prices;
                    newPrices = take 3 prices;
                    oldAvg = meanInt oldPrices;
                    newAvg = meanInt newPrices
                in Some (((newAvg - oldAvg) / oldAvg) * 100))
          else None),
       propertyTypes =
         (if length sales > 0
          then Some (foldl (\<lambda>types s. bump (propertyType s) types) [] sales) else None),
       economicImpact =
         (case economic of
            None \<Rightarrow> None
          | Some e \<Rightarrow>
              Some \<lparr>interestRateEffect = map_option (\<lambda>rate. (6 - rate) * 0.5) (baseRate e),
                    inflationEffect = (if above (inflation e) 3 then - 0.5 else 0.5),
                    unemploymentEffect = (if above (unemploymentRate e) 5 then - 0.3 else 0.3)\<rparr>),
       crimeImpact =
         (case crime of
            None \<Rightarrow> None
          | Some c \<Rightarrow>
              Some \<lparr>impactCrimeRate = crimeRate c,
                    safetyScore = max 1 (10 - crimeRate c / 50)\<rparr>)\<rparr>)"

definition getFallbackEconomicData :: "nat \<Rightarrow> economicSnapshot" where
  "getFallbackEconomicData now =
     \<lparr>baseRate = Some 5.25, inflation = Some 4.2, unemploymentRate = Some 4.1,
      gdpGrowth = Some 0.6,
      economicLastUpdated = now,
      dataSources = \<lparr>bankRateSource = ''fallback'', inflationSource = ''fallback'',
                      unemploymentSource = ''fallback'', gdpGrowthSource = ''fallback''\<rparr>\<rparr>"

definition liveOrFallback :: "'a option \<Rightarrow> string" where
  \<comment> \<open>\<open>r.status === "fulfilled" ? "live" : "fallback"\<close>\<close>
  "liveOrFallback r = (case r of Some v \<Rightarrow> ''live'' | None \<Rightarrow> ''fallback'')"

definition getAllEconomicData ::
  "nat \<Rightarrow> number option \<Rightarrow> number option \<Rightarrow> number option \<Rightarrow> number option
     \<Rightarrow> economicSnapshot" where
  \<comment> \<open>The four indicator fetchers are network code and enter as their settled results:
      \<open>Some v\<close> for a promise fulfilled with \<open>v\<close>, \<open>None\<close> for a rejected one. A fetcher
      returns \<open>parseFloat\<close> of a field of the payload without testing the result, so the
      value of a fulfilled promise is a \<open>number\<close>: \<open>Some None\<close> is a promise fulfilled
      with NaN (the last line of the base-rate CSV reads \<open>01 Jan 2024,n/a\<close>, say).\<close>
  "getAllEconomicData now bankRate inflationRate unemployment gdp =
     \<lparr>baseRate = (case bankRate of Some v \<Rightarrow> v | None \<Rightarrow> Some 5.25),
      inflation = (case inflationRate of Some v \<Rightarrow> v | None \<Rightarrow> Some 4.2),
      unemploymentRate = (case unemployment of Some v \<Rightarrow> v | None \<Rightarrow> Some 4.1),
      gdpGrowth = (case gdp of Some v \<Rightarrow> v | None \<Rightarrow> Some 0.6),
      economicLastUpdated = now,
      dataSources = \<lparr>bankRateSource = liveOrFallback bankRate,
                      inflationSource = liveOrFallback inflationRate,
                      unemploymentSource = liveOrFallback unemployment,
                      gdpGrowthSource = liveOrFallback gdp\<rparr>\<rparr>"

record upstream =
  bankRateFetch :: "number option"
  inflationFetch :: "number option"
  unemploymentFetch :: "number option"
  gdpGrowthFetch :: "number option"
  landRegistryFetch :: "string option"  \<comment> \<open>the CSV text of the sales request\<close>
  coordinatesFetch :: "(string \<times> string) option"  \<comment> \<open>latitude and longitude, or \<open>null\<close>\<close>
  policeFetch :: "string list option"  \<comment> \<open>the categories of the crimes returned\<close>

definition getEnhancedPropertyData ::
  "(string \<Rightarrow> int option) \<Rightarrow> nat \<Rightarrow> nat \<Rightarrow> upstream \<Rightarrow> string \<Rightarrow> enhancedData" where
  \<comment> \<open>\<open>up\<close> holds what each upstream request of this call comes back with. The provider
      is made new by the call; \<open>getAllEconomicData\<close> catches its own errors, so its
      promise is always fulfilled, and so are the other two.\<close>
  "getEnhancedPropertyData dateValue now later up pc =
     (let dataProvider = newProvider;
          economic = getAllEconomicData later (bankRateFetch up) (inflationFetch up)
                       (unemploymentFetch up) (gdpGrowthFetch up);
          (landRegistryData, p1) =
             getLandRegistryData dateValue dataProvider now later pc (landRegistryFetch up);
          sales = (case landRegistryData of Sales xs \<Rightarrow> xs | _ \<Rightarrow> []);
          coords = coordinatesFetch up;
          crime = (case coords of
                     None \<Rightarrow> None
                   | Some (lat, lng) \<Rightarrow>
                       (case fst (getPoliceData p1 later later lat lng (policeFetch up)) of
                          Crime c \<Rightarrow> Some c
                        | _ \<Rightarrow> None));
          metrics = calculateEnhancedMetrics sales (Some economic) crime
      in \<lparr>postcode = toUpperCase pc,
          economicData = Some economic,
          recentSales = sales,
          crimeData = crime,
          enhancedMetrics = metrics,
          dataQuality =
            \<lparr>economicQuality = dataSources economic,
             recentSalesQuality = (if length sales > 0 then ''live'' else ''unavailable''),
             crimeQuality =
               (if (case crime of None \<Rightarrow> None | Some c \<Rightarrow> source c) \<noteq> Some ''fallback''
                then ''live'' else ''fallback'')\<rparr>,
          lastUpdated = later\<rparr>)"

section \<open>UniversalRealTimePredictor\<close>

record areaProfile =
  region :: string
  basePrice :: real
  growthRate :: real
  yield :: real
  riskFactor :: real

definition areaData :: "(string \<times> areaProfile) list" where
  \<comment> \<open>\<open>initializeComprehensiveUKAreaData\<close>, the properties in the order of the source\<close>
  "areaData =
     [(''E'', \<lparr>region = ''London East'', basePrice = 520000, growthRate = 4.2, yield = 3.8, riskFactor = 1.1\<rparr>),
      (''EC'', \<lparr>region = ''London City'', basePrice = 780000, growthRate = 3.8, yield = 3.2, riskFactor = 0.9\<rparr>),
      (''N'', \<lparr>region = ''London North'', basePrice = 610000, growthRate = 4.0, yield = 3.5, riskFactor = 1.0\<rparr>),
      (''NW'', \<lparr>region = ''London Northwest'', basePrice = 690000, growthRate = 3.9, yield = 3.4, riskFactor = 0.95\<rparr>),
      (''SE'', \<lparr>region = ''London Southeast'', basePrice = 480000, growthRate = 4.3, yield = 4.1, riskFactor = 1.05\<rparr>),
      (''SW'', \<lparr>region = ''London Southwest'', basePrice = 750000, growthRate = 3.7, yield = 3.1, riskFactor = 0.9\<rparr>),
      (''W'', \<lparr>region = ''London West'', basePrice = 820000, growthRate = 3.5, yield = 2.9, riskFactor = 0.85\<rparr>),
      (''WC'', \<lparr>region = ''London West Central'', basePrice = 950000, growthRate = 3.2, yield = 2.8, riskFactor = 0.8\<rparr>),
      (''M'', \<lparr>region = ''Manchester'', basePrice = 280000, growthRate = 5.2, yield = 5.8, riskFactor = 1.3\<rparr>),
      (''B'', \<lparr>region = ''Birmingham'', basePrice = 240000, growthRate = 4.8, yield = 6.2, riskFactor = 1.4\<rparr>),
      (''L'', \<lparr>region = ''Liverpool'', basePrice = 180000, growthRate = 5.5, yield = 7.1, riskFactor = 1.6\<rparr>),
      (''LS'', \<lparr>region = ''Leeds'', basePrice = 220000, growthRate = 4.9, yield = 6.0, riskFactor = 1.3\<rparr>),
      (''S'', \<lparr>region = ''Sheffield'', basePrice = 195000, growthRate = 4.7, yield = 6.8, riskFactor = 1.4\<rparr>),
      (''NG'', \<lparr>region = ''Nottingham'', basePrice = 210000, growthRate = 4.5, yield = 6.3, riskFactor = 1.35\<rparr>),
      (''LE'', \<lparr>region = ''Leicester'', basePrice = 200000, growthRate = 4.6, yield = 6.5, riskFactor = 1.4\<rparr>),
      (''CV'', \<lparr>region = ''Coventry'', basePrice = 240000, growthRate = 4.5, yield = 6.0, riskFactor = 1.3\<rparr>),
      (''WV'', \<lparr>region = ''Wolverhampton'', basePrice = 190000, growthRate = 4.7, yield = 6.7, riskFactor = 1.45\<rparr>),
      (''WS'', \<lparr>region = ''Walsall'', basePrice = 185000, growthRate = 4.6, yield = 6.9, riskFactor = 1.5\<rparr>),
      (''G'', \<lparr>region = ''Glasgow'', basePrice = 170000, growthRate = 3.8, yield = 7.2, riskFactor = 1.5\<rparr>),
      (''EH'', \<lparr>region = ''Edinburgh'', basePrice = 350000, growthRate = 4.1, yield = 5.1, riskFactor = 1.1\<rparr>),
      (''AB'', \<lparr>region = ''Aberdeen'', basePrice = 280000, growthRate = 2.9, yield = 5.8, riskFactor = 1.8\<rparr>),
      (''DD'', \<lparr>region = ''Dundee'', basePrice = 160000, growthRate = 3.5, yield = 7.5, riskFactor = 1.6\<rparr>),
      (''FK'', \<lparr>region = ''Falkirk'', basePrice = 145000, growthRate = 3.2, yield = 7.8, riskFactor = 1.7\<rparr>),
      (''KY'', \<lparr>region = ''Kirkcaldy'', basePrice = 140000, growthRate = 3.0, yield = 8.0, riskFactor = 1.8\<rparr>),
      (''PA'', \<lparr>region = ''Paisley'', basePrice = 155000, growthRate = 3.4, yield = 7.6, riskFactor = 1.6\<rparr>),
      (''PH'', \<lparr>region = ''Perth'', basePrice = 185000, growthRate = 3.6, yield = 6.9, riskFactor = 1.4\<rparr>),
      (''CF'', \<lparr>region = ''Cardiff'', basePrice = 280000, growthRate = 4.2, yield = 5.5, riskFactor = 1.2\<rparr>),
      (''SA'', \<lparr>region = ''Swansea'', basePrice = 180000, growthRate = 3.8, yield = 6.8, riskFactor = 1.5\<rparr>),
      (''NP'', \<lparr>region = ''Newport'', basePrice = 220000, growthRate = 4.0, yield = 6.1, riskFactor = 1.3\<rparr>),
      (''LL'', \<lparr>region = ''Llandudno'', basePrice = 200000, growthRate = 3.5, yield = 6.5, riskFactor = 1.4\<rparr>),
      (''SY'', \<lparr>region = ''Shrewsbury'', basePrice = 240000, growthRate = 3.7, yield = 5.9, riskFactor = 1.2\<rparr>),
      (''NE'', \<lparr>region = ''Newcastle'', basePrice = 190000, growthRate = 4.3, yield = 6.9, riskFactor = 1.4\<rparr>),
      (''SR'', \<lparr>region = ''Sunderland'', basePrice = 150000, growthRate = 4.1, yield = 7.8, riskFactor = 1.7\<rparr>),
      (''DL'', \<lparr>region = ''Darlington'', basePrice = 165000, growthRate = 3.9, yield = 7.2, riskFactor = 1.5\<rparr>),
      (''TS'', \<lparr>region = ''Cleveland'', basePrice = 145000, growthRate = 4.0, yield = 8.1, riskFactor = 1.8\<rparr>),
      (''DH'', \<lparr>region = ''Durham'', basePrice = 175000, growthRate = 4.2, yield = 7.0, riskFactor = 1.4\<rparr>),
      (''BS'', \<lparr>region = ''Bristol'', basePrice = 380000, growthRate = 4.4, yield = 4.8, riskFactor = 1.1\<rparr>),
      (''BA'', \<lparr>region = ''Bath'', basePrice = 520000, growthRate = 3.6, yield = 3.9, riskFactor = 0.95\<rparr>),
      (''EX'', \<lparr>region = ''Exeter'', basePrice = 320000, growthRate = 4.0, yield = 5.2, riskFactor = 1.15\<rparr>),
      (''PL'', \<lparr>region = ''Plymouth'', basePrice = 220000, growthRate = 3.8, yield = 6.1, riskFactor = 1.3\<rparr>),
      (''TR'', \<lparr>region = ''Truro'', basePrice = 280000, growthRate = 3.5, yield = 5.8, riskFactor = 1.2\<rparr>),
      (''TQ'', \<lparr>region = ''Torquay'', basePrice = 250000, growthRate = 3.6, yield = 5.9, riskFactor = 1.25\<rparr>),
      (''BN'', \<lparr>region = ''Brighton'', basePrice = 480000, growthRate = 3.9, yield = 4.2, riskFactor = 1.05\<rparr>),
      (''GU'', \<lparr>region = ''Guildford'', basePrice = 620000, growthRate = 3.4, yield = 3.6, riskFactor = 0.9\<rparr>),
      (''RG'', \<lparr>region = ''Reading'', basePrice = 450000, growthRate = 3.7, yield = 4.1, riskFactor = 1.0\<rparr>),
      (''SL'', \<lparr>region = ''Slough'', basePrice = 420000, growthRate = 3.8, yield = 4.3, riskFactor = 1.05\<rparr>),
      (''OX'', \<lparr>region = ''Oxford'', basePrice = 580000, growthRate = 3.5, yield = 3.8, riskFactor = 0.95\<rparr>),
      (''HP'', \<lparr>region = ''High Wycombe'', basePrice = 480000, growthRate = 3.6, yield = 4.0, riskFactor = 1.0\<rparr>),
      (''MK'', \<lparr>region = ''Milton Keynes'', basePrice = 360000, growthRate = 4.1, yield = 4.8, riskFactor = 1.15\<rparr>),
      (''CB'', \<lparr>region = ''Cambridge'', basePrice = 580000, growthRate = 3.5, yield = 3.8, riskFactor = 0.9\<rparr>),
      (''NR'', \<lparr>region = ''Norwich'', basePrice = 260000, growthRate = 4.0, yield = 5.7, riskFactor = 1.2\<rparr>),
      (''IP'', \<lparr>region = ''Ipswich'', basePrice = 240000, growthRate = 3.8, yield = 5.9, riskFactor = 1.25\<rparr>),
      (''PE'', \<lparr>region = ''Peterborough'', basePrice = 210000, growthRate = 4.2, yield = 6.3, riskFactor = 1.3\<rparr>),
      (''LU'', \<lparr>region = ''Luton'', basePrice = 320000, growthRate = 4.0, yield = 5.1, riskFactor = 1.2\<rparr>),
      (''DE'', \<lparr>region = ''Derby'', basePrice = 195000, growthRate = 4.4, yield = 6.6, riskFactor = 1.35\<rparr>),
      (''NN'', \<lparr>region = ''Northampton'', basePrice = 250000, growthRate = 4.1, yield = 5.8, riskFactor = 1.25\<rparr>),
      (''DY'', \<lparr>region = ''Dudley'', basePrice = 200000, growthRate = 4.6, yield = 6.5, riskFactor = 1.4\<rparr>),
      (''WR'', \<lparr>region = ''Worcester'', basePrice = 230000, growthRate = 4.2, yield = 6.0, riskFactor = 1.3\<rparr>),
      (''HU'', \<lparr>region = ''Hull'', basePrice = 140000, growthRate = 4.8, yield = 8.2, riskFactor = 1.7\<rparr>),
      (''YO'', \<lparr>region = ''York'', basePrice = 290000, growthRate = 4.0, yield = 5.5, riskFactor = 1.2\<rparr>),
      (''HX'', \<lparr>region = ''Halifax'', basePrice = 165000, growthRate = 4.5, yield = 7.1, riskFactor = 1.5\<rparr>),
      (''BD'', \<lparr>region = ''Bradford'', basePrice = 155000, growthRate = 4.7, yield = 7.5, riskFactor = 1.6\<rparr>),
      (''HD'', \<lparr>region = ''Huddersfield'', basePrice = 170000, growthRate = 4.4, yield = 7.0, riskFactor = 1.5\<rparr>),
      (''PR'', \<lparr>region = ''Preston'', basePrice = 165000, growthRate = 4.6, yield = 7.2, riskFactor = 1.5\<rparr>),
      (''BB'', \<lparr>region = ''Blackburn'', basePrice = 140000, growthRate = 4.8, yield = 8.0, riskFactor = 1.7\<rparr>),
      (''BL'', \<lparr>region = ''Bolton'', basePrice = 185000, growthRate = 4.7, yield = 6.8, riskFactor = 1.4\<rparr>),
      (''FY'', \<lparr>region = ''Blackpool'', basePrice = 130000, growthRate = 4.3, yield = 8.5, riskFactor = 1.9\<rparr>),
      (''BT'', \<lparr>region = ''Belfast'', basePrice = 160000, growthRate = 4.2, yield = 7.3, riskFactor = 1.6\<rparr>),
      (''DEFAULT'', \<lparr>region = ''UK Average'', basePrice = 280000, growthRate = 4.0, yield = 5.5, riskFactor = 1.2\<rparr>)]"

definition defaultArea :: areaProfile where
  \<comment> \<open>\<open>this.areaData["DEFAULT"]\<close>\<close>
  "defaultArea =
     \<lparr>region = ''UK Average'', basePrice = 280000, growthRate = 4.0, yield = 5.5,
      riskFactor = 1.2\<rparr>"

definition areaOf :: "string \<Rightarrow> areaProfile" where
  \<comment> \<open>\<open>this.areaData[areaCode] || this.areaData["DEFAULT"]\<close>\<close>
  "areaOf areaCode = (case map_of areaData areaCode of Some a \<Rightarrow> a | None \<Rightarrow> defaultArea)"

fun startsWithUpper :: "nat \<Rightarrow> string \<Rightarrow> bool" where
  \<comment> \<open>\<open>/^[A-Z]{n}/.test(s)\<close>\<close>
  "startsWithUpper 0 s = True"
| "startsWithUpper (Suc n) [] = False"
| "startsWithUpper (Suc n) (c # cs) = (isUpper c \<and> startsWithUpper n cs)"

definition extractAreaCode :: "string \<Rightarrow> string" where
  "extractAreaCode pc =
     (let cleaned = toUpperCase (removeWhitespace pc);
          twoLetter = take 2 cleaned;
          oneLetter = take 1 cleaned
      in if map_of areaData twoLetter \<noteq> None \<and> startsWithUpper 2 twoLetter then twoLetter
         else if map_of areaData oneLetter \<noteq> None \<and> startsWithUpper 1 oneLetter then oneLetter
         else ''DEFAULT'')"


text \<open>
  The predictor keeps the \<open>EnhancedPropertyData\<close> it is constructed with; its methods
  take that record as \<open>d\<close>. The constructor's defaults (\<open>recentSales || []\<close>,
  \<open>enhancedMetrics || {}\<close>) are the empty list and the record of absent fields.
  \<open>Math.random()\<close> and \<open>new Date().getFullYear()\<close> are read once in each round of
  the loop: \<open>random y\<close> and \<open>getFullYear y\<close> are what round \<open>y\<close> reads.
\<close>

record yearPrediction =
  year :: int
  predictedPrice :: "int option"  \<comment> \<open>\<open>Math.round\<close> of a number: \<open>None\<close> is NaN\<close>
  priceChangePercent :: number
  predictedYield :: number
  confidence :: real
  predictionQuality :: real  \<comment> \<open>the property \<open>dataQuality\<close>\<close>
  areaCoverage :: string

record recommendation =
  label :: string  \<comment> \<open>the property \<open>recommendation\<close>\<close>
  score :: real
  reasoning :: "string list"
  recConfidence :: int
  recQuality :: int
  areaSpecific :: string
  recCoverage :: string

definition hasLiveCrime :: "enhancedData \<Rightarrow> bool" where
  \<comment> \<open>\<open>this.crimeData && this.crimeData.source !== "fallback"\<close>\<close>
  "hasLiveCrime d =
     (case crimeData d of None \<Rightarrow> False | Some c \<Rightarrow> source c \<noteq> Some ''fallback'')"

definition safetyScoreOr5 :: "enhancedData \<Rightarrow> real" where
  \<comment> \<open>\<open>this.enhancedMetrics.crimeImpact?.safetyScore || 5\<close>\<close>
  "safetyScoreOr5 d =
     (case crimeImpact (enhancedMetrics d) of
        None \<Rightarrow> 5
      | Some ci \<Rightarrow> if safetyScore ci = 0 then 5 else safetyScore ci)"

definition getDataQualityScore :: "enhancedData \<Rightarrow> real" where
  "getDataQualityScore d =
     (let score = 0.7;
          score = (case economicData d of
                     None \<Rightarrow> score
                   | Some e \<Rightarrow>
                       (let liveDataSources =
                              length (filter (\<lambda>src. src = ''live'')
                                [bankRateSource (dataSources e), inflationSource (dataSources e),
                                 unemploymentSource (dataSources e), gdpGrowthSource (dataSources e)])
                        in score + real liveDataSources * 0.05));
          score = (if length (recentSales d) > 0
                   then score + min (real (length (recentSales d)) / 10) 0.15 else score);
          score = (if hasLiveCrime d then score + 0.05 else score)
      in min score 1.0)"

definition calculateUniversalGrowth :: "enhancedData \<Rightarrow> string \<Rightarrow> nat \<Rightarrow> real" where
  "calculateUniversalGrowth d areaCode y =
     (case priceGrowth (enhancedMetrics d) of
        Some g \<Rightarrow> g * 0.9 ^ (y - 1)
      | None \<Rightarrow> growthRate (areaOf areaCode))"

definition calculateRealEconomicAdjustment :: "enhancedData \<Rightarrow> nat \<Rightarrow> number" where
  \<comment> \<open>NaN as soon as one of the four indicators is NaN\<close>
  "calculateRealEconomicAdjustment d y =
     (case economicData d of
        None \<Rightarrow> Some 0
      | Some e \<Rightarrow>
          do {
            rateImpact \<leftarrow> map_option (\<lambda>rate. (6 - rate) * 0.4) (baseRate e);
            inflationImpact \<leftarrow> map_option (\<lambda>i. (i - 2.5) * 0.25) (inflation e);
            gdpImpact \<leftarrow> map_option (\<lambda>g. g * 0.6) (gdpGrowth e);
            unemploymentImpact \<leftarrow> map_option (\<lambda>u. (5 - u) * 0.2) (unemploymentRate e);
            Some (let decay = 0.85 ^ (y - 1)
                  in (rateImpact - inflationImpact + gdpImpact + unemploymentImpact) * decay)
          })"

definition crimeAdjustment :: "enhancedData \<Rightarrow> real" where
  \<comment> \<open>the variable \<open>crimeAdjustment\<close> of \<open>calculateMarketConditions\<close>\<close>
  "crimeAdjustment d = (if hasLiveCrime d then (safetyScoreOr5 d - 5) * 0.2 else 0)"

definition activityAdjustment :: "enhancedData \<Rightarrow> real" where
  \<comment> \<open>the variable \<open>activityAdjustment\<close> of \<open>calculateMarketConditions\<close>\<close>
  "activityAdjustment d =
     (if length (recentSales d) > 0 then min (real (length (recentSales d)) / 10) 0.5 else 0)"

definition calculateMarketConditions :: "enhancedData \<Rightarrow> nat \<Rightarrow> real" where
  "calculateMarketConditions d y = crimeAdjustment d + activityAdjustment d"

definition countOr0 :: "(string \<times> nat) list \<Rightarrow> string \<Rightarrow> nat" where
  \<comment> \<open>\<open>types[k] || 0\<close>\<close>
  "countOr0 types k = (case map_of types k of None \<Rightarrow> 0 | Some n \<Rightarrow> n)"

definition propertyMixAdjustment :: "enhancedData \<Rightarrow> real" where
  \<comment> \<open>the variable \<open>propertyMixAdjustment\<close> of \<open>calculateLocalFactors\<close>; a comparison
      with a missing count (\<open>undefined\<close>) is false\<close>
  "propertyMixAdjustment d =
     (case propertyTypes (enhancedMetrics d) of
        None \<Rightarrow> 0
      | Some types \<Rightarrow>
          (let adj = 0;
               adj = (if (case map_of types ''F'' of
                            None \<Rightarrow> False
                          | Some f \<Rightarrow> f > countOr0 types ''D'' + countOr0 types ''S'' + countOr0 types ''T'')
                      then adj - 0.3 else adj);
               adj = (if (case map_of types ''D'' of None \<Rightarrow> False | Some n \<Rightarrow> n > 0)
                      then adj + 0.2 else adj)
           in adj))"

definition areaSpecificAdjustment :: "string \<Rightarrow> real" where
  \<comment> \<open>the variable \<open>areaSpecificAdjustment\<close> of \<open>calculateLocalFactors\<close>\<close>
  "areaSpecificAdjustment areaCode =
     (let adj = 0;
          adj = (if areaCode \<in> set [''E'', ''EC'', ''N'', ''NW'', ''SE'', ''SW'', ''W'', ''WC'']
                 then adj + 0.5 else adj);
          adj = (if areaCode \<in> set [''M'', ''L'', ''LS'', ''S'', ''NE''] then adj + 0.4 else adj);
          adj = (if areaCode \<in> set [''G'', ''EH'', ''AB'', ''DD''] then adj + 0.2 else adj);
          adj = (if areaCode \<in> set [''CF'', ''SA'', ''NP''] then adj + 0.3 else adj)
      in adj)"

definition calculateLocalFactors :: "real \<Rightarrow> enhancedData \<Rightarrow> string \<Rightarrow> nat \<Rightarrow> real" where
  \<comment> \<open>\<open>rnd\<close> is what \<open>Math.random()\<close> returns in this call\<close>
  "calculateLocalFactors rnd d pc y =
     (let areaCode = extractAreaCode pc
      in propertyMixAdjustment d + areaSpecificAdjustment areaCode + (rnd - 0.5) * 0.3)"

definition calculateCurrentYield :: "real \<Rightarrow> string \<Rightarrow> real" where
  "calculateCurrentYield price0 areaCode =
     (let baseYield = yield (areaOf areaCode);
          priceAdjustment = (if price0 > 500000 then - 1.5 else if price0 < 200000 then 1.5 else 0)
      in max (baseYield + priceAdjustment) 2.0)"

definition calculateYieldChange :: "enhancedData \<Rightarrow> number \<Rightarrow> nat \<Rightarrow> number" where
  \<comment> \<open>NaN when the growth or the base rate is NaN\<close>
  "calculateYieldChange d growth y =
     do {
       baseYieldChange \<leftarrow> map_option (\<lambda>g. - g * 0.1) growth;
       rentGrowthAdjustment \<leftarrow> map_option (\<lambda>g. g * 0.3) growth;
       rateImpact \<leftarrow> (case economicData d of
                       None \<Rightarrow> Some 0
                     | Some e \<Rightarrow> map_option (\<lambda>rate. (rate - 4) * 0.1) (baseRate e));
       Some ((baseYieldChange + rentGrowthAdjustment + rateImpact) / real y)
     }"

definition calculateUniversalConfidence :: "enhancedData \<Rightarrow> nat \<Rightarrow> string \<Rightarrow> real" where
  "calculateUniversalConfidence d y areaCode =
     (let baseConfidence = 0.9;
          baseConfidence = baseConfidence - real y * 0.05;
          baseConfidence = baseConfidence * getDataQualityScore d;
          baseConfidence = (if areaCode = ''DEFAULT'' then baseConfidence * 0.75
                            else baseConfidence * 0.95);
          baseConfidence = (if length (recentSales d) > 5 then baseConfidence + 0.05
                            else baseConfidence);
          baseConfidence = (case economicData d of
                              None \<Rightarrow> baseConfidence
                            | Some e \<Rightarrow>
                                if bankRateSource (dataSources e) = ''live''
                                then baseConfidence + 0.03 else baseConfidence)
      in max (min baseConfidence 0.95) 0.5)"

definition coverageOf :: "string \<Rightarrow> string" where
  \<comment> \<open>\<open>areaCode === "DEFAULT" ? "estimated" : "detailed"\<close>\<close>
  "coverageOf areaCode = (if areaCode = ''DEFAULT'' then ''estimated'' else ''detailed'')"

function predictionLoop ::
  "(nat \<Rightarrow> real) \<Rightarrow> (nat \<Rightarrow> int) \<Rightarrow> enhancedData \<Rightarrow> string \<Rightarrow> string \<Rightarrow> real \<Rightarrow> nat \<Rightarrow> number
     \<Rightarrow> yearPrediction list" where
  \<comment> \<open>the \<open>for\<close> loop of \<open>generatePredictions\<close> from round \<open>y\<close> on, \<open>currentPrice\<close> being
      the price the rounds before have compounded; it returns what is pushed from there.
      \<open>Math.max\<close> and \<open>Math.round\<close> of NaN are NaN.\<close>
  "predictionLoop random getFullYear d pc areaCode currentYield y currentPrice =
     (if y \<le> 5
      then (let baseGrowth = calculateUniversalGrowth d areaCode y;
                economicAdjustment = calculateRealEconomicAdjustment d y;
                marketConditionsAdjustment = calculateMarketConditions d y;
                localFactorsAdjustment = calculateLocalFactors (random y) d pc y;
                totalGrowth =
                  map_option
                    (\<lambda>economic. (baseGrowth + economic + marketConditionsAdjustment
                                    + localFactorsAdjustment) * 0.94 ^ (y - 1))
                    economicAdjustment;
                nextPrice = do { price0 \<leftarrow> currentPrice;
                                 growth \<leftarrow> totalGrowth;
                                 Some (price0 * (1 + growth / 100)) };
                yieldChange = calculateYieldChange d totalGrowth y;
                yieldNow = map_option (\<lambda>change. max (currentYield + change) 1.5) yieldChange;
                conf = calculateUniversalConfidence d y areaCode
            in \<lparr>year = getFullYear y + int y,
                predictedPrice = map_option jsRound nextPrice,
                priceChangePercent = map_option round2 totalGrowth,
                predictedYield = map_option round2 yieldNow,
                confidence = round2 conf,
                predictionQuality = getDataQualityScore d,
                areaCoverage = coverageOf areaCode\<rparr>
               # predictionLoop random getFullYear d pc areaCode currentYield (y + 1) nextPrice)
      else [])"
  by pat_completeness auto
termination
  by (relation "measure (\<lambda>(random, getFullYear, d, pc, areaCode, currentYield, y, currentPrice). 6 - y)")
    auto

declare predictionLoop.simps [simp del]

definition generatePredictions ::
  "(nat \<Rightarrow> real) \<Rightarrow> (nat \<Rightarrow> int) \<Rightarrow> enhancedData \<Rightarrow> string \<Rightarrow> yearPrediction list" where
  \<comment> \<open>\<open>this.enhancedMetrics.averagePrice || areaData.basePrice\<close>: a missing average and
      an average of 0 give the area's price\<close>
  "generatePredictions random getFullYear d pc =
     (let areaCode = extractAreaCode pc;
          area = areaOf areaCode;
          price0 = (case averagePrice (enhancedMetrics d) of
                      None \<Rightarrow> basePrice area
                    | Some a \<Rightarrow> if a = 0 then basePrice area else a);
          currentYield = calculateCurrentYield price0 areaCode
      in predictionLoop random getFullYear d pc areaCode currentYield 1 (Some price0))"

definition average :: "number list \<Rightarrow> number" where
  \<comment> \<open>\<open>xs.reduce((sum, x) => sum + x, 0) / xs.length\<close>: NaN when an element is NaN, and
      the NaN of 0 / 0 on the empty array\<close>
  "average xs =
     (case those xs of
        None \<Rightarrow> None
      | Some vs \<Rightarrow> if vs = [] then None else Some (sum_list vs / real (length vs)))"

definition calculateVolatility :: "number list \<Rightarrow> number" where
  "calculateVolatility xs =
     (case (those xs, average xs) of
        (Some vs, Some mean) \<Rightarrow>
          (let squaredDiffs = map (\<lambda>v. (v - mean) ^ 2) vs
           in Some (sqrt (sum_list squaredDiffs / real (length vs))))
      | _ \<Rightarrow> None)"

definition calculateRisk :: "enhancedData \<Rightarrow> yearPrediction list \<Rightarrow> string \<Rightarrow> int option" where
  \<comment> \<open>\<open>None\<close> is NaN: with no prediction, or with a prediction whose
      \<open>priceChangePercent\<close> is NaN, both the mean and the volatility are NaN, and so is
      everything computed from them, \<open>Math.round\<close>, \<open>Math.max\<close> and \<open>Math.min\<close> included\<close>
  "calculateRisk d predictions pc =
     (let areaCode = extractAreaCode pc;
          area = areaOf areaCode
      in case (average (map priceChangePercent predictions),
               calculateVolatility (map priceChangePercent predictions)) of
           (Some avgGrowth, Some volatility) \<Rightarrow>
             (let risk = 5;
                  risk = risk + (riskFactor area - 1) * 3;
                  risk = (if avgGrowth > 6 then risk + 1.5 else risk);
                  risk = (if avgGrowth < 1 then risk + 2 else risk);
                  risk = risk + volatility * 0.5;
                  risk = (case economicData d of
                            None \<Rightarrow> risk
                          | Some e \<Rightarrow>
                              (let r = (if above (baseRate e) 6 then risk + 1 else risk);
                                   r = (if above (inflation e) 5 then r + 0.5 else r);
                                   r = (if above (unemploymentRate e) 6 then r + 0.5 else r)
                               in r));
                  risk = (case crimeData d of
                            None \<Rightarrow> risk
                          | Some c \<Rightarrow> if crimeRate c > 500 then risk + 1 else risk);
                  risk = risk + (1 - getDataQualityScore d) * 2;
                  risk = (if areaCode = ''DEFAULT'' then risk + 0.5 else risk)
              in Some (min (max (jsRound risk) 1) 10))
         | _ \<Rightarrow> None)"

definition labelOf :: "real \<Rightarrow> string" where
  \<comment> \<open>the chain that ends \<open>generateRecommendation\<close>, in the order of the source\<close>
  "labelOf s =
     (if s \<ge> 7.5 then ''STRONG BUY''
      else if s \<ge> 6 then ''BUY''
      else if s \<le> 3 then ''SELL''
      else if s \<le> 2 then ''STRONG SELL''
      else ''HOLD'')"

definition scoreAndReasoning ::
  "enhancedData \<Rightarrow> yearPrediction list \<Rightarrow> int \<Rightarrow> string \<Rightarrow> real \<times> string list" where
  \<comment> \<open>the variables \<open>score\<close> and \<open>reasoning\<close> of \<open>generateRecommendation\<close> where the
      label is chosen; each step is a pair of the score and the reasons so far. The
      risk score is taken as an integer, the score never becomes NaN (comparisons with
      NaN are false and only constants are added).\<close>
  "scoreAndReasoning d predictions riskScore pc =
     (let areaCode = extractAreaCode pc;
          area = areaOf areaCode;
          avgGrowth = average (map priceChangePercent predictions);
          avgYield = average (map predictedYield predictions);
          (s, rs) = (5, []);
          (s, rs) = (if above avgGrowth 5 then (s + 2, rs @ [''Strong growth potential identified''])
                     else if above avgGrowth 3 then (s + 1, rs @ [''Moderate growth expected''])
                     else if below avgGrowth 1 then (s - 2, rs @ [''Limited growth potential''])
                     else (s, rs));
          (s, rs) = (if above avgYield 6 then (s + 2, rs @ [''Excellent rental yield opportunity''])
                     else if above avgYield 4.5 then (s + 1, rs @ [''Good rental yield potential''])
                     else if below avgYield 3 then (s - 1, rs @ [''Lower rental yield expected''])
                     else (s, rs));
          (s, rs) = (if riskScore < 4 then (s + 1, rs @ [''Low risk investment''])
                     else if riskScore > 7 then (s - 2, rs @ [''Higher risk investment''])
                     else (s, rs @ [''Moderate risk level'']));
          (s, rs) = (case economicData d of
                       None \<Rightarrow> (s, rs)
                     | Some e \<Rightarrow>
                         (let (s1, rs1) =
                                (if below (baseRate e) 4
                                 then (s + 0.5, rs @ [''Favorable interest rate environment''])
                                 else if above (baseRate e) 6
                                 then (s - 0.5, rs @ [''High interest rate headwind''])
                                 else (s, rs))
                          in if below (inflation e) 3
                             then (s1, rs1 @ [''Stable inflation environment''])
                             else if above (inflation e) 5
                             then (s1 - 0.5, rs1 @ [''High inflation concern''])
                             else (s1, rs1)));
          rs = (if includesStr (region area) ''London'' then rs @ [''London market premium''] else rs);
          rs = (if areaCode \<in> set [''M'', ''L'', ''LS'', ''S'']
                then rs @ [''Northern powerhouse growth area''] else rs);
          rs = (if areaCode \<in> set [''G'', ''EH''] then rs @ [''Major Scottish city market''] else rs);
          rs = (if areaCode \<in> set [''CF'', ''SA''] then rs @ [''Welsh capital region''] else rs);
          (s, rs) = (if length (recentSales d) > 10
                     then (s + 0.3, rs @ [''Active local market with real sales data''])
                     else if length (recentSales d) < 3
                     then (s - 0.2, rs @ [''Limited recent market activity''])
                     else (s, rs));
          (s, rs) = (if hasLiveCrime d
                     then (if safetyScoreOr5 d > 7 then (s, rs @ [''Low crime area advantage''])
                           else if safetyScoreOr5 d < 3
                           then (s - 0.5, rs @ [''Higher crime area concern''])
                           else (s, rs))
                     else (s, rs));
          rs = (if getDataQualityScore d > 0.8
                then rs @ [''Based on comprehensive real-time analysis'']
                else if areaCode = ''DEFAULT'' then rs @ [''Estimate based on UK averages'']
                else rs @ [''Based on detailed area analysis''])
      in (s, rs))"

definition generateRecommendation ::
  "enhancedData \<Rightarrow> yearPrediction list \<Rightarrow> int \<Rightarrow> string \<Rightarrow> recommendation" where
  \<comment> \<open>The property \<open>economicContext\<close>, a rendering of two numbers as text, is left out.\<close>
  "generateRecommendation d predictions riskScore pc =
     (let areaCode = extractAreaCode pc;
          area = areaOf areaCode;
          (s, rs) = scoreAndReasoning d predictions riskScore pc;
          quality = getDataQualityScore d
      in \<lparr>label = labelOf s,
          score = real_of_int (jsRound (s * 10)) / 10,
          reasoning = rs,
          recConfidence = jsRound (real_of_int (10 - riskScore) * 8 + quality * 20),
          recQuality = jsRound (quality * 100),
          areaSpecific = region area,
          recCoverage = coverageOf areaCode\<rparr>)"

section \<open>UniversalUKPredictor, the fallback predictor\<close>

definition fallbackAreaData :: "(string \<times> areaProfile) list" where
  \<comment> \<open>\<open>this.areaData\<close> of \<open>UniversalUKPredictor\<close>\<close>
  "fallbackAreaData =
     [(''M'', \<lparr>region = ''Manchester'', basePrice = 280000, growthRate = 5.2, yield = 5.8, riskFactor = 1.3\<rparr>),
      (''SW'', \<lparr>region = ''London Southwest'', basePrice = 750000, growthRate = 3.7, yield = 3.1, riskFactor = 0.9\<rparr>),
      (''B'', \<lparr>region = ''Birmingham'', basePrice = 240000, growthRate = 4.8, yield = 6.2, riskFactor = 1.4\<rparr>),
      (''L'', \<lparr>region = ''Liverpool'', basePrice = 180000, growthRate = 5.5, yield = 7.1, riskFactor = 1.6\<rparr>),
      (''G'', \<lparr>region = ''Glasgow'', basePrice = 170000, growthRate = 3.8, yield = 7.2, riskFactor = 1.5\<rparr>),
      (''EH'', \<lparr>region = ''Edinburgh'', basePrice = 350000, growthRate = 4.1, yield = 5.1, riskFactor = 1.1\<rparr>),
      (''CF'', \<lparr>region = ''Cardiff'', basePrice = 280000, growthRate = 4.2, yield = 5.5, riskFactor = 1.2\<rparr>),
      (''BT'', \<lparr>region = ''Belfast'', basePrice = 160000, growthRate = 4.2, yield = 7.3, riskFactor = 1.6\<rparr>),
      (''DEFAULT'', \<lparr>region = ''UK Average'', basePrice = 280000, growthRate = 4.0, yield = 5.5, riskFactor = 1.2\<rparr>)]"

definition fallbackExtractAreaCode :: "string \<Rightarrow> string" where
  \<comment> \<open>\<open>UniversalUKPredictor.extractAreaCode\<close>\<close>
  "fallbackExtractAreaCode pc =
     (let cleaned = toUpperCase (removeWhitespace pc);
          twoLetter = take 2 cleaned;
          oneLetter = take 1 cleaned
      in if map_of fallbackAreaData twoLetter \<noteq> None then twoLetter
         else if map_of fallbackAreaData oneLetter \<noteq> None then oneLetter
         else ''DEFAULT'')"

section \<open>The specification's area-code resolution\<close>

definition resolveAreaCode :: "string list \<Rightarrow> string \<Rightarrow> string" where
  \<comment> \<open>As the specification words it, for a table with the keys \<open>keys\<close>: the 2-letter
      prefix of the upper-cased postcode if it is a key, else the 1-letter prefix if it
      is one, else \<open>DEFAULT\<close>.\<close>
  "resolveAreaCode keys pc =
     (let cleaned = toUpperCase (removeWhitespace pc) in
      if take 2 cleaned \<in> set keys then take 2 cleaned
      else if take 1 cleaned \<in> set keys then take 1 cleaned
      else ''DEFAULT'')"


section \<open>Auxiliary predicates and fixtures\<close>

definition keyShape :: "string \<Rightarrow> bool" where
  \<comment> \<open>a key of an area table: two capitals, one capital, or longer than any prefix looked up\<close>
  "keyShape k =
     ((length k = 2 \<and> startsWithUpper 2 k) \<or> (length k = 1 \<and> startsWithUpper 1 k) \<or> 2 < length k)"

definition expiriesPositive :: "provider \<Rightarrow> bool" where
  \<comment> \<open>no expiry instant of the provider is 0\<close>
  "expiriesPositive p = (\<forall>k e. cacheExpiry p k = Some e \<longrightarrow> 0 < e)"

definition cacheFixture :: provider where
  \<comment> \<open>a new provider after the base rate has been stored at instant 1000\<close>
  "cacheFixture = setCache newProvider 1000 ''bankRate'' (Rate 5.25)"

definition allFailed :: upstream where
  \<comment> \<open>every upstream request fails\<close>
  "allFailed =
     \<lparr>bankRateFetch = None, inflationFetch = None, unemploymentFetch = None,
      gdpGrowthFetch = None, landRegistryFetch = None, coordinatesFetch = None,
      policeFetch = None\<rparr>"

definition fallbackOnlyData :: enhancedData where
  "fallbackOnlyData = getEnhancedPropertyData (\<lambda>s. None) 0 0 allFailed ''WC1A 1AA''"

definition crimeFailureData :: enhancedData where
  \<comment> \<open>the coordinates are found, the crime request fails\<close>
  "crimeFailureData =
     getEnhancedPropertyData (\<lambda>s. None) 0 5
       (allFailed\<lparr>coordinatesFetch := Some (''51.5'', ''-0.12'')\<rparr>) ''SW1A 1AA''"

definition nanRateData :: enhancedData where
  \<comment> \<open>the base-rate request is fulfilled with NaN, every other request fails\<close>
  "nanRateData =
     getEnhancedPropertyData (\<lambda>s. None) 0 0 (allFailed\<lparr>bankRateFetch := Some None\<rparr>)
       ''SW1A 1AA''"

definition economicNumbers :: "enhancedData \<Rightarrow> bool" where
  \<comment> \<open>no economic indicator of the data is NaN\<close>
  "economicNumbers d =
     (case economicData d of
        None \<Rightarrow> True
      | Some e \<Rightarrow> baseRate e \<noteq> None \<and> inflation e \<noteq> None
                  \<and> unemploymentRate e \<noteq> None \<and> gdpGrowth e \<noteq> None)"

definition fallingMarket :: "yearPrediction list" where
  \<comment> \<open>five predictions of a market losing 2 percent a year at a yield of 2 percent\<close>
  "fallingMarket =
     map (\<lambda>(y, p). \<lparr>year = y, predictedPrice = Some p, priceChangePercent = Some (- 2),
                    predictedYield = Some 2, confidence = 0.6, predictionQuality = 0.7,
                    areaCoverage = ''detailed''\<rparr>)
       [(2027, 931000), (2028, 912380), (2029, 894132), (2030, 876250), (2031, 858725)]"

definition malformedPriceCsv :: string where
  \<comment> \<open>a header and one line of 12 fields whose price is not a number\<close>
  "malformedPriceCsv =
     ''id,price,date,postcode,type,new,tenure,paon,saon,street,locality,town'' @ [CHR 0x0A]
     @ ''A1,N/A,2024-03-01 00:00,SW1A 1AA,F,N,L,10,,DOWNING STREET,,LONDON''"

section \<open>The cache\<close>

lemma isCached_miss: "cacheExpiry p key = None \<Longrightarrow> isCached p now key = (False, p)"
  by (simp add: isCached_def)

lemma cacheGet_miss: "cacheExpiry p key = None \<Longrightarrow> cacheGet p now key = (None, p)"
  by (simp add: cacheGet_def isCached_def)

text \<open>
  Every expiry the program writes is positive, so \<open>!expiry\<close> holds of missing entries
  only: the new provider has no entry, \<open>setCache\<close> writes an instant plus a duration of
  an hour at least, and \<open>isCached\<close> only removes entries.
\<close>

lemma expiriesPositive_new: "expiriesPositive newProvider"
  by (simp add: expiriesPositive_def newProvider_def)

lemma expiriesPositive_setCache: "expiriesPositive p \<Longrightarrow> expiriesPositive (setCache p now key v)"
  by (auto simp: expiriesPositive_def setCache_def Let_def split: option.splits if_splits)

lemma expiriesPositive_isCached: "expiriesPositive p \<Longrightarrow> expiriesPositive (snd (isCached p now key))"
  by (auto simp: expiriesPositive_def isCached_def split: option.splits if_splits)

text \<open>
  C8. A lookup of a key after its expiry instant has passed removes the key from both
  maps and reports a miss; and whenever a lookup returns a value, the key's expiry
  instant has not passed and the value is the one stored. The expiry is one the program
  wrote, hence positive.
\<close>

theorem expired_entry_is_evicted:
  "(\<forall>expiry. cacheExpiry p key = Some expiry \<and> 0 < expiry \<and> expiry < now \<longrightarrow>
      isCached p now key =
        (False, p\<lparr>cache := (cache p)(key := None), cacheExpiry := (cacheExpiry p)(key := None)\<rparr>)
      \<and> fst (cacheGet p now key) = None
      \<and> cache (snd (cacheGet p now key)) key = None
      \<and> cacheExpiry (snd (cacheGet p now key)) key = None)
   \<and> (\<forall>v. fst (cacheGet p now key) = Some v \<longrightarrow>
         (\<exists>expiry. cacheExpiry p key = Some expiry \<and> now \<le> expiry \<and> cache p key = Some v))"
  by (auto simp: cacheGet_def isCached_def getFromCache_def
      split: option.splits if_splits bool.splits)

theorem expired_entry_is_evicted_witness:
  "cacheExpiry cacheFixture ''bankRate'' = Some 86401000
   \<and> fst (cacheGet cacheFixture 86401001 ''bankRate'') = None
   \<and> cache (snd (cacheGet cacheFixture 86401001 ''bankRate'')) ''bankRate'' = None
   \<and> cacheExpiry (snd (cacheGet cacheFixture 86401001 ''bankRate'')) ''bankRate'' = None
   \<and> fst (cacheGet cacheFixture 86401000 ''bankRate'') = Some (Rate 5.25)
   \<and> (\<exists>expiry. cacheExpiry cacheFixture ''bankRate'' = Some expiry \<and> 86401000 \<le> expiry)"
proof -
  have e: "cacheExpiry cacheFixture ''bankRate'' = Some 86401000"
    by (simp add: cacheFixture_def setCache_def newProvider_def cacheDuration_def)
  have hit: "fst (cacheGet cacheFixture 86401000 ''bankRate'') = Some (Rate 5.25)"
    by (simp add: cacheFixture_def setCache_def newProvider_def cacheDuration_def
        cacheGet_def isCached_def getFromCache_def)
  from expired_entry_is_evicted [of cacheFixture "''bankRate''" 86401001] e
  have a: "fst (cacheGet cacheFixture 86401001 ''bankRate'') = None
      \<and> cache (snd (cacheGet cacheFixture 86401001 ''bankRate'')) ''bankRate'' = None
      \<and> cacheExpiry (snd (cacheGet cacheFixture 86401001 ''bankRate'')) ''bankRate'' = None"
    by simp
  from expired_entry_is_evicted [of cacheFixture "''bankRate''" 86401000] hit
  have b: "\<exists>expiry. cacheExpiry cacheFixture ''bankRate'' = Some expiry \<and> 86401000 \<le> expiry"
    by blast
  from e a hit b show ?thesis by blast
qed

lemma crime_key_no_duration: "cacheDuration (''crime_'' @ lat @ ''_'' @ lng) = None"
  by (simp add: cacheDuration_def)

lemma landRegistry_key_no_duration: "cacheDuration (''landRegistry_'' @ pc) = None"
  by (simp add: cacheDuration_def)

lemma getPoliceData_writes_one_hour:
  "fst (cacheGet p now (''crime_'' @ lat @ ''_'' @ lng)) = None \<Longrightarrow>
   cacheExpiry (snd (getPoliceData p now later lat lng (Some crimes))) (''crime_'' @ lat @ ''_'' @ lng)
     = Some (later + 60 * 60 * 1000)"
  by (auto simp: getPoliceData_def Let_def setCache_def cacheDuration_def split: prod.splits option.splits)

lemma getLandRegistryData_writes_one_hour:
  "fst (cacheGet p now (''landRegistry_'' @ pc)) = None \<Longrightarrow>
   cacheExpiry (snd (getLandRegistryData dateValue p now later pc (Some csvData))) (''landRegistry_'' @ pc)
     = Some (later + 60 * 60 * 1000)"
  by (auto simp: getLandRegistryData_def Let_def setCache_def cacheDuration_def split: prod.splits option.splits)

text \<open>
  C9. The table \<open>cacheDuration\<close> gives crime data 7 days and land-registry data 24
  hours, under the keys \<open>crimeData\<close> and \<open>landRegistry\<close>. The fetchers store under the
  keys \<open>crime_<lat>_<lng>\<close> and \<open>landRegistry_<postcode>\<close>, which the table does not
  hold: what \<open>getPoliceData\<close> and \<open>getLandRegistryData\<close> write expires after the
  default of one hour.
\<close>

theorem fetched_entries_expire_after_one_hour:
  "cacheExpiry (snd (getPoliceData newProvider now later lat lng (Some crimes)))
       (''crime_'' @ lat @ ''_'' @ lng) = Some (later + 60 * 60 * 1000)
   \<and> cacheExpiry (snd (getLandRegistryData dateValue newProvider now later pc (Some csvData)))
       (''landRegistry_'' @ pc) = Some (later + 60 * 60 * 1000)
   \<and> cacheDuration ''crimeData'' = Some (7 * 24 * 60 * 60 * 1000)
   \<and> cacheDuration ''landRegistry'' = Some (24 * 60 * 60 * 1000)"
  by (simp add: getPoliceData_def getLandRegistryData_def cacheGet_def isCached_def
      newProvider_def setCache_def Let_def crime_key_no_duration landRegistry_key_no_duration)
    (simp add: cacheDuration_def)

section \<open>The fetchers and the fusion layer\<close>

lemma crimeFailureData_crime: "crimeData crimeFailureData = Some (fallbackCrimeData 5)"
  by (simp add: crimeFailureData_def getEnhancedPropertyData_def allFailed_def Let_def
      getLandRegistryData_def getPoliceData_def cacheGet_def isCached_def newProvider_def)

lemma landRegistry_leaves_crime_key:
  "cacheExpiry (snd (getLandRegistryData dateValue newProvider now later pc response))
     (''crime_'' @ lat @ ''_'' @ lng) = None"
  by (cases response)
    (simp_all add: getLandRegistryData_def cacheGet_def isCached_def newProvider_def
      setCache_def Let_def)

lemma getPoliceData_miss_failure:
  "cacheExpiry p (''crime_'' @ lat @ ''_'' @ lng) = None \<Longrightarrow>
   getPoliceData p now later lat lng None = (Crime (fallbackCrimeData later), p)"
  by (simp add: getPoliceData_def cacheGet_miss)

lemma failed_crime_fetch_in_response:
  "crimeData (getEnhancedPropertyData dateValue now later
      (up\<lparr>coordinatesFetch := Some (lat, lng), policeFetch := None\<rparr>) pc)
     = Some (fallbackCrimeData later)"
  by (simp add: getEnhancedPropertyData_def Let_def case_prod_beta
      getPoliceData_miss_failure [OF landRegistry_leaves_crime_key])

text \<open>
  C6. When the cache holds nothing for the coordinates and the crime request fails,
  \<open>getPoliceData\<close> returns the fallback snapshot: 25 crimes, a rate of 300, the source
  \<open>fallback\<close>. For a predictor whose crime data is that snapshot, the crime term of
  \<open>calculateMarketConditions\<close> is 0: the adjustment is the activity term alone.
\<close>

theorem failed_crime_fetch_gives_fallback:
  assumes "fst (cacheGet p now (''crime_'' @ lat @ ''_'' @ lng)) = None"
  shows "fst (getPoliceData p now later lat lng None) = Crime (fallbackCrimeData later)
   \<and> totalCrimes (fallbackCrimeData later) = 25
   \<and> crimeRate (fallbackCrimeData later) = 300
   \<and> source (fallbackCrimeData later) = Some ''fallback''
   \<and> (\<forall>d y. crimeData d = Some (fallbackCrimeData later) \<longrightarrow>
        crimeAdjustment d = 0 \<and> calculateMarketConditions d y = activityAdjustment d)"
  using assms
  by (auto simp: getPoliceData_def Let_def fallbackCrimeData_def crimeAdjustment_def
      hasLiveCrime_def calculateMarketConditions_def split: prod.splits option.splits)

theorem failed_crime_fetch_gives_fallback_witness:
  "fst (cacheGet newProvider 0 (''crime_'' @ ''51.5'' @ ''_'' @ ''-0.12'')) = None
   \<and> fst (getPoliceData newProvider 0 5 ''51.5'' ''-0.12'' None) = Crime (fallbackCrimeData 5)
   \<and> crimeData crimeFailureData = Some (fallbackCrimeData 5)
   \<and> crimeAdjustment crimeFailureData = 0
   \<and> calculateMarketConditions crimeFailureData 1 = activityAdjustment crimeFailureData"
proof -
  have miss: "fst (cacheGet newProvider 0 (''crime_'' @ ''51.5'' @ ''_'' @ ''-0.12'')) = None"
    by (simp add: cacheGet_def isCached_def newProvider_def)
  from failed_crime_fetch_gives_fallback [OF miss, of 5] crimeFailureData_crime miss
  show ?thesis by blast
qed

text \<open>
  C7. When the coordinates of the postcode are not found, no crime request is made and
  \<open>crimeData\<close> is \<open>null\<close>; the descriptor \<open>dataQuality.crime\<close> of the response is
  \<open>live\<close> all the same.
\<close>

theorem absent_crime_data_is_marked_live:
  "crimeData (getEnhancedPropertyData dateValue now later (up\<lparr>coordinatesFetch := None\<rparr>) pc) = None
   \<and> crimeQuality (dataQuality
        (getEnhancedPropertyData dateValue now later (up\<lparr>coordinatesFetch := None\<rparr>) pc)) = ''live''"
  by (simp add: getEnhancedPropertyData_def Let_def split: prod.splits)

lemma collect_malformed:
  "collectSales (drop 1 (splitOn (CHR 0x0A) malformedPriceCsv)) [] =
     [\<lparr>price = None, date = ''2024-03-01 00:00'', propertyType = ''F'', newBuild = ''N'',
       tenure = ''L'', address = ''10  DOWNING STREET'', salePostcode = ''SW1A 1AA''\<rparr>]"
  by code_simp

lemma sortSales_single: "sortSales cmp [x] = [x]"
  by (simp add: sortSales_def)

text \<open>
  C5. A line of 12 fields whose price is not a number is not skipped: \<open>parseInt\<close>
  returns NaN and throws nothing, so the record is kept with a NaN price, whatever the
  date parser does.
\<close>

theorem unparsable_price_is_kept:
  "parseLandRegistryCSV dateValue malformedPriceCsv =
     [\<lparr>price = None, date = ''2024-03-01 00:00'', propertyType = ''F'', newBuild = ''N'',
       tenure = ''L'', address = ''10  DOWNING STREET'', salePostcode = ''SW1A 1AA''\<rparr>]"
  unfolding parseLandRegistryCSV_def collect_malformed by (rule sortSales_single)

text \<open>The parts of the same sentence that hold of the parser and of the fusion.\<close>

lemma collectSales_length: "length sales \<le> 50 \<Longrightarrow> length (collectSales ls sales) \<le> 50"
  by (induction ls sales rule: collectSales.induct) (auto simp: Let_def)

lemma insertSale_length: "length (insertSale cmp x ys) = Suc (length ys)"
  by (induction ys) auto

lemma sortSales_length: "length (sortSales cmp xs) = length xs"
  unfolding sortSales_def by (induction xs) (auto simp: insertSale_length)

lemma parseLandRegistryCSV_at_most_50: "length (parseLandRegistryCSV dateValue csvData) \<le> 50"
  by (simp add: parseLandRegistryCSV_def sortSales_length collectSales_length)

lemma short_line_is_skipped:
  "length (splitOn (CHR '','') (trim l)) < 12 \<Longrightarrow> collectSales (l # ls) sales = collectSales ls sales"
  by (cases ls) (auto simp: Let_def)

lemma insertSale_set: "set (insertSale cmp x ys) = insert x (set ys)"
  by (induction ys) auto

lemma insertSale_sorted:
  assumes "sorted_wrt (\<lambda>a b. k b \<le> k a) ys"
    and "\<And>a b. (cmp a b \<le> 0) = (k b \<le> (k a :: int))"
  shows "sorted_wrt (\<lambda>a b. k b \<le> k a) (insertSale cmp x ys)"
  using assms by (induction ys) (auto simp: insertSale_set)

lemma sortSales_sorted:
  assumes "\<And>a b. (cmp a b \<le> 0) = (k b \<le> (k a :: int))"
  shows "sorted_wrt (\<lambda>a b. k b \<le> k a) (sortSales cmp xs)"
proof (induction xs)
  case Nil
  show ?case by (simp add: sortSales_def)
next
  case (Cons x xs)
  then have "sorted_wrt (\<lambda>a b. k b \<le> k a) (insertSale cmp x (sortSales cmp xs))"
    using assms by (rule insertSale_sorted)
  then show ?case by (simp add: sortSales_def)
qed

lemma parseLandRegistryCSV_newest_first:
  assumes "\<And>s. dateValue s = Some (k s)"
  shows "sorted_wrt (\<lambda>a b. k (date b) \<le> k (date a)) (parseLandRegistryCSV dateValue csvData)"
  unfolding parseLandRegistryCSV_def
  by (rule sortSales_sorted) (simp add: dateCompare_def assms)

lemma no_positive_price_no_average:
  "pricesOf sales = [] \<Longrightarrow> averagePrice (calculateEnhancedMetrics sales economic crime) = None"
  by (simp add: calculateEnhancedMetrics_def Let_def)

section \<open>Area-code resolution\<close>

lemma areaData_keys_shape: "list_all keyShape (map fst areaData)"
  by code_simp

lemma keyShape_one: "keyShape [a] \<Longrightarrow> startsWithUpper 1 [a]"
  by (simp add: keyShape_def)

lemma keyShape_two: "keyShape [a, b] \<Longrightarrow> startsWithUpper 2 [a, b]"
  by (simp add: keyShape_def)

lemma keyShape_empty: "\<not> keyShape []"
  by (simp add: keyShape_def)

lemma resolve_with_guard:
  assumes "list_all keyShape keys"
  shows "(if take 2 c \<in> set keys \<and> startsWithUpper 2 (take 2 c) then take 2 c
          else if take 1 c \<in> set keys \<and> startsWithUpper 1 (take 1 c) then take 1 c else dflt)
       = (if take 2 c \<in> set keys then take 2 c else if take 1 c \<in> set keys then take 1 c else dflt)"
proof -
  have shape: "keyShape k" if "k \<in> set keys" for k
    using assms that by (simp add: list_all_iff)
  show ?thesis
  proof (cases c)
    case Nil
    with shape [of "[]"] keyShape_empty show ?thesis by auto
  next
    case (Cons a r)
    show ?thesis
    proof (cases r)
      case Nil
      with Cons shape [of "[a]"] keyShape_one [of a] show ?thesis
        by (auto simp: numeral_2_eq_2)
    next
      case (Cons b r')
      with \<open>c = a # r\<close> shape [of "[a]"] shape [of "[a, b]"] keyShape_one [of a] keyShape_two [of a b]
      show ?thesis by (auto simp: numeral_2_eq_2)
    qed
  qed
qed

lemma map_of_defined: "(map_of tbl k \<noteq> None) = (k \<in> set (map fst tbl))"
  by (simp add: map_of_eq_None_iff)

text \<open>
  C3. For every input string, \<open>extractAreaCode\<close> of either predictor returns what the
  specification's resolution returns on the keys of that predictor's table: the 2-letter
  prefix of the upper-cased input without whitespace if it is a key, else the 1-letter
  prefix if it is a key, else \<open>DEFAULT\<close>. Both are functions of the string alone and
  have no failing branch.
\<close>

theorem extractAreaCode_resolves:
  "extractAreaCode pc = resolveAreaCode (map fst areaData) pc
   \<and> fallbackExtractAreaCode pc = resolveAreaCode (map fst fallbackAreaData) pc"
proof
  show "extractAreaCode pc = resolveAreaCode (map fst areaData) pc"
    unfolding extractAreaCode_def resolveAreaCode_def Let_def map_of_defined
    by (rule resolve_with_guard) (rule areaData_keys_shape)
  show "fallbackExtractAreaCode pc = resolveAreaCode (map fst fallbackAreaData) pc"
    unfolding fallbackExtractAreaCode_def resolveAreaCode_def Let_def map_of_defined
    by (rule refl)
qed

section \<open>The five-year forecast\<close>

lemma jsRound_lower: "real_of_int n \<le> x \<Longrightarrow> n \<le> jsRound x"
  unfolding jsRound_def by (simp add: le_floor_iff)

lemma jsRound_upper: "x \<le> real_of_int n \<Longrightarrow> jsRound x \<le> n"
proof -
  assume "x \<le> real_of_int n"
  then have "x + 1 / 2 < real_of_int (n + 1)" by simp
  then have "\<lfloor>x + 1 / 2\<rfloor> < n + 1" by (simp only: floor_less_iff)
  then show ?thesis unfolding jsRound_def by simp
qed

lemma round2_lower_150: "3 / 2 \<le> x \<Longrightarrow> 3 / 2 \<le> round2 x"
proof -
  assume "3 / 2 \<le> x"
  then have "real_of_int 150 \<le> x * 100" by simp
  then have "150 \<le> jsRound (x * 100)" by (rule jsRound_lower)
  then have "real_of_int 150 \<le> real_of_int (jsRound (x * 100))" by (simp only: of_int_le_iff)
  then show ?thesis unfolding round2_def by simp
qed

lemma round2_confidence:
  "1 / 2 \<le> x \<Longrightarrow> x \<le> 95 / 100 \<Longrightarrow> 1 / 2 \<le> round2 x \<and> round2 x \<le> 95 / 100"
proof -
  assume lo: "1 / 2 \<le> x" and hi: "x \<le> 95 / 100"
  from lo have "real_of_int 50 \<le> x * 100" by simp
  then have "50 \<le> jsRound (x * 100)" by (rule jsRound_lower)
  then have a: "real_of_int 50 \<le> real_of_int (jsRound (x * 100))" by (simp only: of_int_le_iff)
  from hi have "x * 100 \<le> real_of_int 95" by simp
  then have "jsRound (x * 100) \<le> 95" by (rule jsRound_upper)
  then have b: "real_of_int (jsRound (x * 100)) \<le> real_of_int 95" by (simp only: of_int_le_iff)
  from a b show ?thesis unfolding round2_def by simp
qed

lemma confidence_clamped:
  "1 / 2 \<le> calculateUniversalConfidence d y areaCode
   \<and> calculateUniversalConfidence d y areaCode \<le> 95 / 100"
  by (simp add: calculateUniversalConfidence_def Let_def)

lemma confidence_step:
  "0.5 \<le> round2 (calculateUniversalConfidence d y areaCode)
   \<and> round2 (calculateUniversalConfidence d y areaCode) \<le> 0.95"
proof -
  have "1 / 2 \<le> round2 (calculateUniversalConfidence d y areaCode)
      \<and> round2 (calculateUniversalConfidence d y areaCode) \<le> 95 / 100"
    using confidence_clamped [of d y areaCode] by (intro round2_confidence) simp_all
  then show ?thesis by simp
qed

lemma yield_step: "1.5 \<le> round2 (max yl 1.5)"
proof -
  have "3 / 2 \<le> round2 (max yl (3 / 2))" by (rule round2_lower_150) simp
  then show ?thesis by simp
qed

lemma predictionLoop_length:
  "length (predictionLoop random getFullYear d pc areaCode currentYield y currentPrice) = 6 - y"
proof (induction random getFullYear d pc areaCode currentYield y currentPrice
    rule: predictionLoop.induct)
  case (1 random getFullYear d pc areaCode currentYield y currentPrice)
  show ?case
  proof (cases "y \<le> 5")
    case True
    with "1.IH" show ?thesis
      by (subst predictionLoop.simps) (simp add: Let_def)
  next
    case False
    then show ?thesis by (subst predictionLoop.simps) simp
  qed
qed

lemma predictionLoop_years:
  "map year (predictionLoop random getFullYear d pc areaCode currentYield y currentPrice)
     = map (\<lambda>k. getFullYear k + int k) [y..<6]"
proof (induction random getFullYear d pc areaCode currentYield y currentPrice
    rule: predictionLoop.induct)
  case (1 random getFullYear d pc areaCode currentYield y currentPrice)
  show ?case
  proof (cases "y \<le> 5")
    case True
    then have "[y..<6] = y # [y + 1..<6]" by (simp add: upt_conv_Cons)
    with True "1.IH" show ?thesis
      by (subst predictionLoop.simps) (simp add: Let_def)
  next
    case False
    then show ?thesis by (subst predictionLoop.simps) simp
  qed
qed

lemma predictionLoop_confidence:
  "list_all (\<lambda>p. 0.5 \<le> confidence p \<and> confidence p \<le> 0.95)
     (predictionLoop random getFullYear d pc areaCode currentYield y currentPrice)"
proof (induction random getFullYear d pc areaCode currentYield y currentPrice
    rule: predictionLoop.induct)
  case (1 random getFullYear d pc areaCode currentYield y currentPrice)
  show ?case
  proof (cases "y \<le> 5")
    case True
    note h = confidence_step [of d y areaCode]
    show ?thesis
      by (subst predictionLoop.simps) (use True "1.IH" h in \<open>simp add: Let_def\<close>)
  next
    case False
    then show ?thesis by (subst predictionLoop.simps) simp
  qed
qed

lemma economicAdjustment_number:
  "economicNumbers d \<Longrightarrow> \<exists>r. calculateRealEconomicAdjustment d y = Some r"
  by (auto simp: economicNumbers_def calculateRealEconomicAdjustment_def split: option.splits)

lemma yieldChange_number:
  "economicNumbers d \<Longrightarrow> \<exists>c. calculateYieldChange d (Some g) y = Some c"
  by (auto simp: economicNumbers_def calculateYieldChange_def split: option.splits)

lemma predictionLoop_numbers:
  "economicNumbers d \<Longrightarrow>
   list_all (\<lambda>p. (\<exists>v. predictedYield p = Some v \<and> 1.5 \<le> v) \<and> priceChangePercent p \<noteq> None)
     (predictionLoop random getFullYear d pc areaCode currentYield y currentPrice)"
proof (induction random getFullYear d pc areaCode currentYield y currentPrice
    rule: predictionLoop.induct)
  case (1 random getFullYear d pc areaCode currentYield y currentPrice)
  show ?case
  proof (cases "y \<le> 5")
    case True
    from "1.prems" obtain r where r: "calculateRealEconomicAdjustment d y = Some r"
      using economicAdjustment_number by blast
    let ?g = "(calculateUniversalGrowth d areaCode y + r + calculateMarketConditions d y
                + calculateLocalFactors (random y) d pc y) * 0.94 ^ (y - 1)"
    from "1.prems" obtain c where c: "calculateYieldChange d (Some ?g) y = Some c"
      using yieldChange_number by blast
    note h = yield_step [of "currentYield + c"]
    show ?thesis
      by (subst predictionLoop.simps)
        (use True "1.IH" "1.prems" r c h in \<open>simp add: Let_def\<close>)
  next
    case False
    then show ?thesis by (subst predictionLoop.simps) simp
  qed
qed

text \<open>
  C1. For every postcode and every \<open>EnhancedPropertyData\<close>, in a run within the
  calendar year \<open>currentYear\<close>, \<open>generatePredictions\<close> returns exactly 5 entries, whose
  years are \<open>currentYear + 1\<close> to \<open>currentYear + 5\<close> in this order, strictly increasing.
\<close>

theorem generatePredictions_five_years:
  "length (generatePredictions random (\<lambda>y. currentYear) d pc) = 5
   \<and> map year (generatePredictions random (\<lambda>y. currentYear) d pc)
       = [currentYear + 1, currentYear + 2, currentYear + 3, currentYear + 4, currentYear + 5]
   \<and> sorted_wrt (<) (map year (generatePredictions random (\<lambda>y. currentYear) d pc))"
proof -
  have u: "[Suc 0..<6] = [Suc 0, 2, 3, 4, 5]" by (simp add: upt_rec)
  have ys: "map year (generatePredictions random (\<lambda>y. currentYear) d pc)
       = [currentYear + 1, currentYear + 2, currentYear + 3, currentYear + 4, currentYear + 5]"
    by (simp add: generatePredictions_def Let_def predictionLoop_years u)
  have len: "length (generatePredictions random (\<lambda>y. currentYear) d pc) = 5"
    by (simp add: generatePredictions_def Let_def predictionLoop_length)
  have "sorted_wrt (<)
      [currentYear + 1, currentYear + 2, currentYear + 3, currentYear + 4, currentYear + 5]"
    by simp
  with ys len show ?thesis by simp
qed

lemma generatePredictions_nonempty: "generatePredictions random getFullYear d pc \<noteq> []"
proof -
  have "length (generatePredictions random getFullYear d pc) = 5"
    by (simp add: generatePredictions_def Let_def predictionLoop_length)
  then show ?thesis by auto
qed

lemma those_all_numbers:
  "list_all (\<lambda>x. x \<noteq> None) xs \<Longrightarrow> \<exists>vs. those xs = Some vs \<and> length vs = length xs"
  by (induction xs) auto

lemma calculateRisk_range:
  assumes "predictions \<noteq> []"
    and "list_all (\<lambda>p. priceChangePercent p \<noteq> None) predictions"
  shows "\<exists>r. calculateRisk d predictions pc = Some r \<and> 1 \<le> r \<and> r \<le> 10"
proof -
  from assms(2) have "list_all (\<lambda>x. x \<noteq> None) (map priceChangePercent predictions)"
    by (simp add: list_all_iff)
  then obtain vs where vs: "those (map priceChangePercent predictions) = Some vs"
    and len: "length vs = length (map priceChangePercent predictions)"
    using those_all_numbers by blast
  from len assms(1) have "vs \<noteq> []" by auto
  with vs show ?thesis
    by (simp add: calculateRisk_def calculateVolatility_def average_def Let_def)
qed

text \<open>
  What holds of the bounds: the confidence of every prediction is between 0.5 and 0.95
  whatever the data; and when no economic indicator is NaN, every yield is a number of
  at least 1.5 and the risk score an integer between 1 and 10.
\<close>

lemma bounds_when_indicators_are_numbers:
  assumes "economicNumbers d"
  shows "list_all (\<lambda>p. (\<exists>v. predictedYield p = Some v \<and> 1.5 \<le> v)
                      \<and> 0.5 \<le> confidence p \<and> confidence p \<le> 0.95)
           (generatePredictions random getFullYear d pc)
   \<and> (\<exists>r. calculateRisk d (generatePredictions random getFullYear d pc) pc = Some r
          \<and> 1 \<le> r \<and> r \<le> 10)"
proof -
  let ?ps = "generatePredictions random getFullYear d pc"
  have n: "list_all (\<lambda>p. (\<exists>v. predictedYield p = Some v \<and> 1.5 \<le> v) \<and> priceChangePercent p \<noteq> None) ?ps"
    unfolding generatePredictions_def Let_def using assms by (rule predictionLoop_numbers)
  have c: "list_all (\<lambda>p. 0.5 \<le> confidence p \<and> confidence p \<le> 0.95) ?ps"
    unfolding generatePredictions_def Let_def by (rule predictionLoop_confidence)
  from n c have "list_all (\<lambda>p. (\<exists>v. predictedYield p = Some v \<and> 1.5 \<le> v)
                      \<and> 0.5 \<le> confidence p \<and> confidence p \<le> 0.95) ?ps"
    by (simp add: list_all_iff)
  moreover from n have "list_all (\<lambda>p. priceChangePercent p \<noteq> None) ?ps"
    by (simp add: list_all_iff)
  then have "\<exists>r. calculateRisk d ?ps pc = Some r \<and> 1 \<le> r \<and> r \<le> 10"
    by (rule calculateRisk_range [OF generatePredictions_nonempty])
  ultimately show ?thesis by (rule conjI)
qed

lemma predictionLoop_nan:
  assumes "economicData d = Some e" and "baseRate e = None"
  shows "map predictedYield (predictionLoop random getFullYear d pc areaCode currentYield y currentPrice)
           = replicate (6 - y) None
       \<and> map priceChangePercent
             (predictionLoop random getFullYear d pc areaCode currentYield y currentPrice)
           = replicate (6 - y) None"
  using assms
proof (induction random getFullYear d pc areaCode currentYield y currentPrice
    rule: predictionLoop.induct)
  case (1 random getFullYear d pc areaCode currentYield y currentPrice)
  have a: "calculateRealEconomicAdjustment d y = None"
    using "1.prems" by (simp add: calculateRealEconomicAdjustment_def)
  have b: "calculateYieldChange d None y = None"
    by (simp add: calculateYieldChange_def)
  show ?case
  proof (cases "y \<le> 5")
    case True
    then have s: "6 - y = Suc (6 - (y + 1))" by simp
    show ?thesis
      by (subst predictionLoop.simps, subst (2) predictionLoop.simps)
        (use True "1.IH" "1.prems" a b in \<open>simp add: Let_def s del: replicate.simps\<close>,
          simp)
  next
    case False
    then show ?thesis
      by (subst predictionLoop.simps, subst (2) predictionLoop.simps) simp
  qed
qed

lemma nanRateData_economic:
  "economicData nanRateData =
     Some \<lparr>baseRate = None, inflation = Some 4.2, unemploymentRate = Some 4.1,
           gdpGrowth = Some 0.6, economicLastUpdated = 0,
           dataSources = \<lparr>bankRateSource = ''live'', inflationSource = ''fallback'',
                           unemploymentSource = ''fallback'', gdpGrowthSource = ''fallback''\<rparr>\<rparr>"
  by (simp add: nanRateData_def getEnhancedPropertyData_def allFailed_def Let_def
      case_prod_beta getAllEconomicData_def liveOrFallback_def)

text \<open>
  C2. When the base-rate request is fulfilled with NaN (\<open>parseFloat\<close> of a field that is
  not a number, returned untested and marked \<open>live\<close>), every \<open>predictedYield\<close> of the
  five predictions is NaN and \<open>calculateRisk\<close> of them is NaN, whatever the random
  source and the clock give: \<open>Math.max(NaN, 1.5)\<close> and
  \<open>Math.min(Math.max(Math.round(NaN), 1), 10)\<close> are NaN, so neither the floor of 1.5
  nor the range from 1 to 10 holds.
\<close>

theorem nan_base_rate_gives_nan_yield_and_risk:
  "map predictedYield (generatePredictions random getFullYear nanRateData ''SW1A 1AA'')
     = [None, None, None, None, None]
   \<and> calculateRisk nanRateData
        (generatePredictions random getFullYear nanRateData ''SW1A 1AA'') ''SW1A 1AA'' = None
   \<and> map_option baseRate (economicData nanRateData) = Some None
   \<and> map_option (\<lambda>e. bankRateSource (dataSources e)) (economicData nanRateData) = Some ''live''"
proof -
  let ?ps = "generatePredictions random getFullYear nanRateData ''SW1A 1AA''"
  note n = predictionLoop_nan [OF nanRateData_economic, simplified]
  have r5: "replicate 5 None = [None, None, None, None, None :: number]"
    by (simp add: numeral_eq_Suc)
  have y: "map predictedYield ?ps = [None, None, None, None, None]"
    by (simp add: generatePredictions_def Let_def n r5)
  have g: "map priceChangePercent ?ps = [None, None, None, None, None]"
    by (simp add: generatePredictions_def Let_def n r5)
  have "calculateRisk nanRateData ?ps ''SW1A 1AA'' = None"
    by (simp add: calculateRisk_def Let_def g average_def calculateVolatility_def)
  with y show ?thesis by (simp add: nanRateData_economic)
qed

lemma predictionLoop_cong:
  "(\<forall>k. y \<le> k \<and> k \<le> 5 \<longrightarrow> random1 k = random2 k \<and> getFullYear1 k = getFullYear2 k) \<Longrightarrow>
   predictionLoop random1 getFullYear1 d pc areaCode currentYield y currentPrice
     = predictionLoop random2 getFullYear2 d pc areaCode currentYield y currentPrice"
proof (induction random1 getFullYear1 d pc areaCode currentYield y currentPrice
    rule: predictionLoop.induct)
  case (1 random1 getFullYear1 d pc areaCode currentYield y currentPrice)
  show ?case
  proof (cases "y \<le> 5")
    case True
    with "1.prems" have here: "random1 y = random2 y" "getFullYear1 y = getFullYear2 y"
      by auto
    from "1.prems" have rest: "\<forall>k. y + 1 \<le> k \<and> k \<le> 5 \<longrightarrow>
        random1 k = random2 k \<and> getFullYear1 k = getFullYear2 k"
      by auto
    show ?thesis
      apply (subst predictionLoop.simps)
      apply (subst (2) predictionLoop.simps)
      using True here "1.IH" [OF True refl refl refl refl refl refl refl refl refl rest]
      apply (simp add: Let_def)
      done
  next
    case False
    then show ?thesis
      by (subst predictionLoop.simps, subst (2) predictionLoop.simps) simp
  qed
qed

text \<open>
  C10. Two runs of \<open>generatePredictions\<close> on the same data and postcode, each with
  \<open>Math.random()\<close> returning 0 in its five rounds and each within the calendar year
  \<open>currentYear\<close>, return the same list: the result depends on the random source and on
  the clock through those five reads only.
\<close>

theorem generatePredictions_two_runs_agree:
  assumes "\<forall>y. 1 \<le> y \<and> y \<le> 5 \<longrightarrow> random1 y = 0 \<and> random2 y = 0"
    and "\<forall>y. 1 \<le> y \<and> y \<le> 5 \<longrightarrow> getFullYear1 y = currentYear \<and> getFullYear2 y = currentYear"
  shows "generatePredictions random1 getFullYear1 d pc = generatePredictions random2 getFullYear2 d pc"
proof -
  from assms have "\<forall>k. 1 \<le> k \<and> k \<le> 5 \<longrightarrow>
      random1 k = random2 k \<and> getFullYear1 k = getFullYear2 k"
    by auto
  then show ?thesis
    by (simp add: generatePredictions_def Let_def predictionLoop_cong)
qed

theorem generatePredictions_two_runs_agree_witness:
  "generatePredictions (\<lambda>y. 0) (\<lambda>y. 2026) fallbackOnlyData ''WC1A 1AA''
     = generatePredictions (\<lambda>y. if y \<le> 5 then 0 else 1 / 2)
         (\<lambda>y. if y \<le> 5 then 2026 else 2027) fallbackOnlyData ''WC1A 1AA''"
  using generatePredictions_two_runs_agree
    [of "\<lambda>y. 0" "\<lambda>y. if y \<le> 5 then 0 else 1 / 2" "\<lambda>y. 2026" 2026
      "\<lambda>y. if y \<le> 5 then 2026 else 2027" fallbackOnlyData "''WC1A 1AA''"]
  by simp

section \<open>The recommendation\<close>

lemma labelOf_never_strong_sell: "labelOf s \<noteq> ''STRONG SELL''"
  by (simp add: labelOf_def)

lemma labelOf_low: "s \<le> 2 \<Longrightarrow> labelOf s = ''SELL''"
  by (simp add: labelOf_def)

lemma fallbackOnlyData_eq:
  "fallbackOnlyData =
     \<lparr>postcode = ''WC1A 1AA'',
      economicData = Some (getFallbackEconomicData 0),
      recentSales = [],
      crimeData = None,
      enhancedMetrics =
        \<lparr>averagePrice = None, priceGrowth = None, propertyTypes = None,
         economicImpact = Some \<lparr>interestRateEffect = Some 0.375, inflationEffect = - 0.5,
                                 unemploymentEffect = 0.3\<rparr>,
         crimeImpact = None\<rparr>,
      dataQuality =
        \<lparr>economicQuality = dataSources (getFallbackEconomicData 0),
         recentSalesQuality = ''unavailable'', crimeQuality = ''live''\<rparr>,
      lastUpdated = 0\<rparr>"
  by (simp add: fallbackOnlyData_def getEnhancedPropertyData_def allFailed_def Let_def
      getLandRegistryData_def cacheGet_def isCached_def newProvider_def
      getAllEconomicData_def getFallbackEconomicData_def liveOrFallback_def
      calculateEnhancedMetrics_def pricesOf_def toUpperCase_def toUpperChar_def isLower_def
      above_def)

lemma extract_wc: "extractAreaCode ''WC1A 1AA'' = ''WC''"
  by code_simp

lemma areaOf_wc:
  "areaOf ''WC'' =
     \<lparr>region = ''London West Central'', basePrice = 950000, growthRate = 3.2, yield = 2.8,
      riskFactor = 0.8\<rparr>"
  by (simp add: areaOf_def areaData_def)

lemma scoreAndReasoning_fixture:
  "fst (scoreAndReasoning fallbackOnlyData fallingMarket 8 ''WC1A 1AA'') = - 0.2"
proof -
  have q: "getDataQualityScore fallbackOnlyData = 0.7"
    by (simp add: fallbackOnlyData_eq getDataQualityScore_def getFallbackEconomicData_def
        hasLiveCrime_def)
  have h: "\<not> hasLiveCrime fallbackOnlyData"
    by (simp add: fallbackOnlyData_eq hasLiveCrime_def)
  have e: "economicData fallbackOnlyData = Some (getFallbackEconomicData 0)"
    and r: "recentSales fallbackOnlyData = []"
    by (simp_all add: fallbackOnlyData_eq)
  have g: "average (map priceChangePercent fallingMarket) = Some (- 2)"
    and y: "average (map predictedYield fallingMarket) = Some 2"
    by (simp_all add: fallingMarket_def average_def)
  show ?thesis
    by (simp add: scoreAndReasoning_def extract_wc areaOf_wc g y above_def below_def q h e r
        getFallbackEconomicData_def)
qed

text \<open>
  C4. No input is labelled \<open>STRONG SELL\<close>: the test \<open>score <= 3\<close> comes before the
  test \<open>score <= 2\<close> and takes every score the second would. With the fallback economic
  figures, no sales and no crime data, five predictions of a market falling 2 percent a
  year at a yield of 2 percent, and a risk score of 8, the postcode WC1A 1AA has a final
  score of -0.2 and the label \<open>SELL\<close>.
\<close>

theorem low_score_is_labelled_sell:
  "label (generateRecommendation d predictions riskScore pc) \<noteq> ''STRONG SELL''
   \<and> label (generateRecommendation fallbackOnlyData fallingMarket 8 ''WC1A 1AA'') = ''SELL''
   \<and> score (generateRecommendation fallbackOnlyData fallingMarket 8 ''WC1A 1AA'') = - 0.2"
proof (intro conjI)
  show "label (generateRecommendation d predictions riskScore pc) \<noteq> ''STRONG SELL''"
    by (simp add: generateRecommendation_def Let_def case_prod_beta labelOf_never_strong_sell)
  show "label (generateRecommendation fallbackOnlyData fallingMarket 8 ''WC1A 1AA'') = ''SELL''"
    using scoreAndReasoning_fixture
    by (simp add: generateRecommendation_def Let_def case_prod_beta labelOf_def)
  show "score (generateRecommendation fallbackOnlyData fallingMarket 8 ''WC1A 1AA'') = - 0.2"
    using scoreAndReasoning_fixture
    by (simp add: generateRecommendation_def Let_def case_prod_beta jsRound_def)
qed

end
